theory Spec2Isabelle
  imports Main "HOL-Library.Word" "HOL-Library.AList" "HOL-Library.Sublist"
    "HOL-Library.Multiset"
begin

section \<open>Python values, errors and dictionaries\<close>

text \<open>
  The service of \<^verbatim>\<open>main.py\<close> keeps two module-level dictionaries, \<^verbatim>\<open>students\<close> and
  \<^verbatim>\<open>courses\<close>, and exposes create, list, get, update and delete handlers over Pydantic
  models (\<^verbatim>\<open>models/course.py\<close>, \<^verbatim>\<open>models/student.py\<close>). The handlers are embedded as
  functions that take the store, and the two values the handler draws from its
  environment (\<^verbatim>\<open>uuid4()\<close> and \<^verbatim>\<open>datetime.utcnow()\<close>), and return a result or the
  exception raised, together with the store as the handler leaves it.

  Strings are Isabelle strings (8-bit characters): the model covers ASCII text, on
  which \<^verbatim>\<open>str.lower\<close> touches the letters A to Z only.
\<close>

type_synonym uuid = "128 word"

text \<open>A naive UTC \<^verbatim>\<open>datetime\<close>, as the number of microseconds since its epoch.\<close>

type_synonym datetime = nat

text \<open>A \<^verbatim>\<open>datetime.date\<close>: year, month, day.\<close>

datatype date = Date nat nat nat

text \<open>
  The exceptions a handler can end with. \<open>HTTPException\<close> carries the status code and
  the detail; the others are the interpreter's and Pydantic's.
\<close>

datatype error =
    HTTPException nat string
  | ValidationError
  | TypeError
  | NameError
  | AttributeError
  | KeyError

text \<open>
  The Python values that occur in the keyword dictionaries \<^verbatim>\<open>model_dump()\<close> produces and
  the model constructors consume.
\<close>

datatype pyval =
    PNone
  | PStr string
  | PInt int
  | PUUID uuid
  | PDatetime datetime
  | PDate date
  | PList "pyval list"
  | PDict "string \<Rightarrow> pyval option"

type_synonym pydict = "string \<Rightarrow> pyval option"

text \<open>Sequencing of computations that may raise: the first exception ends the run.\<close>

definition bind_err :: "error + 'a \<Rightarrow> ('a \<Rightarrow> error + 'b) \<Rightarrow> error + 'b" where
  "bind_err m f = (case m of Inl e \<Rightarrow> Inl e | Inr x \<Rightarrow> f x)"

subsection \<open>Strings\<close>

text \<open>\<^verbatim>\<open>str.lower()\<close> on ASCII text.\<close>

definition lower_char :: "char \<Rightarrow> char" where
  "lower_char c =
     (let n = (of_char c :: nat) in if 65 \<le> n \<and> n \<le> 90 then char_of (n + 32) else c)"

definition str_lower :: "string \<Rightarrow> string" where
  "str_lower s = map lower_char s"

text \<open>
  \<^verbatim>\<open>needle in haystack\<close> on strings is the contiguous-substring test, \<^const>\<open>sublist\<close>
  of the library.
\<close>

definition str_in :: "string \<Rightarrow> string \<Rightarrow> bool" where
  "str_in needle haystack = sublist needle haystack"

text \<open>\<^verbatim>\<open>str(d)\<close> of a date is its ISO form \<^verbatim>\<open>YYYY-MM-DD\<close>; \<^verbatim>\<open>str(None)\<close> is \<^verbatim>\<open>'None'\<close>.\<close>

primrec zero_padded :: "nat \<Rightarrow> nat \<Rightarrow> string" where
  "zero_padded 0 n = []"
| "zero_padded (Suc w) n = zero_padded w (n div 10) @ [char_of (48 + n mod 10)]"

fun str_date :: "date option \<Rightarrow> string" where
  "str_date None = ''None''"
| "str_date (Some (Date y m d)) =
     zero_padded 4 y @ ''-'' @ zero_padded 2 m @ ''-'' @ zero_padded 2 d"

subsection \<open>The UNI pattern\<close>

text \<open>
  \<^verbatim>\<open>UNIType = Annotated[str, StringConstraints(pattern=r"^[a-z]{2,3}\d{1,4}$")]\<close>.
  The pattern is embedded as a term of a small regular-expression language, matched
  by a backtracking matcher that returns every remainder a match of a prefix can
  leave. The anchors \<^verbatim>\<open>^\<close> and \<^verbatim>\<open>$\<close> ask for a match of the whole string (Pydantic
  matches with the Rust regex engine by default, where \<^verbatim>\<open>$\<close> is the end of the text).
  On ASCII text \<^verbatim>\<open>\d\<close> is the range from \<^verbatim>\<open>0\<close> to \<^verbatim>\<open>9\<close>.
\<close>

datatype regex =
    CharRange char char
  | Seq regex regex
  | Repeat regex nat nat

primrec iter_match :: "(string \<Rightarrow> string list) \<Rightarrow> nat \<Rightarrow> string \<Rightarrow> string list" where
  "iter_match f 0 s = [s]"
| "iter_match f (Suc k) s = concat (map (iter_match f k) (f s))"

definition in_range :: "char \<Rightarrow> char \<Rightarrow> char \<Rightarrow> bool" where
  "in_range lo hi c = ((of_char lo :: nat) \<le> of_char c \<and> (of_char c :: nat) \<le> of_char hi)"

primrec rmatch :: "regex \<Rightarrow> string \<Rightarrow> string list" where
  "rmatch (CharRange lo hi) = (\<lambda>s. case s of [] \<Rightarrow> []
     | c # cs \<Rightarrow> if in_range lo hi c then [cs] else [])"
| "rmatch (Seq r1 r2) = (\<lambda>s. concat (map (rmatch r2) (rmatch r1 s)))"
| "rmatch (Repeat r m n) = (\<lambda>s. concat (map (\<lambda>k. iter_match (rmatch r) k s) [m..<Suc n]))"

definition anchored_match :: "regex \<Rightarrow> string \<Rightarrow> bool" where
  "anchored_match r s = ([] \<in> set (rmatch r s))"

definition UNI_pattern :: regex where
  "UNI_pattern =
     Seq (Repeat (CharRange CHR ''a'' CHR ''z'') 2 3) (Repeat (CharRange CHR ''0'' CHR ''9'') 1 4)"

definition UNIType :: "string \<Rightarrow> bool" where
  "UNIType s = anchored_match UNI_pattern s"

subsection \<open>Reading typed fields out of a keyword dictionary\<close>

text \<open>
  What a model constructor does with one keyword: a required field (\<^verbatim>\<open>Field(...)\<close>) must
  be present with a value of its type; an \<^verbatim>\<open>Optional\<close> field with default \<^verbatim>\<open>None\<close> may be
  missing or \<^verbatim>\<open>None\<close>. Any failure is Pydantic's \<^verbatim>\<open>ValidationError\<close>. Keywords that
  name no field are ignored.
\<close>

definition req_str :: "pydict \<Rightarrow> string \<Rightarrow> error + string" where
  "req_str d k = (case d k of Some (PStr s) \<Rightarrow> Inr s | _ \<Rightarrow> Inl ValidationError)"

definition req_int :: "pydict \<Rightarrow> string \<Rightarrow> error + int" where
  "req_int d k = (case d k of Some (PInt i) \<Rightarrow> Inr i | _ \<Rightarrow> Inl ValidationError)"

definition req_uuid :: "pydict \<Rightarrow> string \<Rightarrow> error + uuid" where
  "req_uuid d k = (case d k of Some (PUUID u) \<Rightarrow> Inr u | _ \<Rightarrow> Inl ValidationError)"

definition req_datetime :: "pydict \<Rightarrow> string \<Rightarrow> error + datetime" where
  "req_datetime d k = (case d k of Some (PDatetime t) \<Rightarrow> Inr t | _ \<Rightarrow> Inl ValidationError)"

definition opt_str :: "pydict \<Rightarrow> string \<Rightarrow> error + string option" where
  "opt_str d k = (case d k of None \<Rightarrow> Inr None | Some PNone \<Rightarrow> Inr None
     | Some (PStr s) \<Rightarrow> Inr (Some s) | _ \<Rightarrow> Inl ValidationError)"

definition opt_int :: "pydict \<Rightarrow> string \<Rightarrow> error + int option" where
  "opt_int d k = (case d k of None \<Rightarrow> Inr None | Some PNone \<Rightarrow> Inr None
     | Some (PInt i) \<Rightarrow> Inr (Some i) | _ \<Rightarrow> Inl ValidationError)"

definition opt_date :: "pydict \<Rightarrow> string \<Rightarrow> error + date option" where
  "opt_date d k = (case d k of None \<Rightarrow> Inr None | Some PNone \<Rightarrow> Inr None
     | Some (PDate x) \<Rightarrow> Inr (Some x) | _ \<Rightarrow> Inl ValidationError)"

text \<open>A \<^verbatim>\<open>None\<close>-able Python value as a \<open>pyval\<close>.\<close>

definition py_opt :: "('a \<Rightarrow> pyval) \<Rightarrow> 'a option \<Rightarrow> pyval" where
  "py_opt f x = (case x of None \<Rightarrow> PNone | Some v \<Rightarrow> f v)"

section \<open>The Course models (\<^verbatim>\<open>models/course.py\<close>)\<close>

text \<open>
  \<^verbatim>\<open>CourseBase\<close> and \<^verbatim>\<open>CourseCreate(CourseBase)\<close>, which adds no field. The fields
  \<^verbatim>\<open>size\<close> and \<^verbatim>\<open>id\<close> carry a prime here, their names being taken in HOL.
\<close>

record CourseBase =
  department_code :: string
  course_code :: string
  title :: string
  instructor :: string
  days :: string
  start_time :: string
  end_time :: string
  location :: string
  size' :: int
  credit :: int
  "section" :: "string option"
  enrollment :: "int option"

type_synonym CourseCreate = CourseBase

text \<open>\<^verbatim>\<open>CourseRead(CourseBase)\<close>: the stored and returned record.\<close>

record CourseRead = CourseBase +
  id' :: uuid
  created_at :: datetime
  updated_at :: datetime

text \<open>
  \<^verbatim>\<open>CourseUpdate\<close>: every field is \<^verbatim>\<open>Optional\<close> with default \<^verbatim>\<open>None\<close>. Pydantic records
  which fields the payload set (\<^verbatim>\<open>model_fields_set\<close>); a field here is \<open>None\<close> when the
  payload left it unset, \<open>Some None\<close> when it set it to \<^verbatim>\<open>None\<close> and \<open>Some (Some v)\<close>
  when it set it to \<open>v\<close>.
\<close>

record CourseUpdate =
  department_code :: "string option option"
  course_code :: "string option option"
  title :: "string option option"
  instructor :: "string option option"
  days :: "string option option"
  start_time :: "string option option"
  end_time :: "string option option"
  location :: "string option option"
  size' :: "int option option"
  credit :: "int option option"
  "section" :: "string option option"
  enrollment :: "int option option"

text \<open>\<^verbatim>\<open>model_dump()\<close>: the fields as a keyword dictionary.\<close>

definition CourseBase_model_dump :: "'a CourseBase_scheme \<Rightarrow> pydict" where
  "CourseBase_model_dump c =
     [''department_code'' \<mapsto> PStr (CourseBase.department_code c),
      ''course_code'' \<mapsto> PStr (CourseBase.course_code c),
      ''title'' \<mapsto> PStr (CourseBase.title c),
      ''instructor'' \<mapsto> PStr (CourseBase.instructor c),
      ''days'' \<mapsto> PStr (CourseBase.days c),
      ''start_time'' \<mapsto> PStr (CourseBase.start_time c),
      ''end_time'' \<mapsto> PStr (CourseBase.end_time c),
      ''location'' \<mapsto> PStr (CourseBase.location c),
      ''size'' \<mapsto> PInt (CourseBase.size' c),
      ''credit'' \<mapsto> PInt (CourseBase.credit c),
      ''section'' \<mapsto> py_opt PStr (CourseBase.section c),
      ''enrollment'' \<mapsto> py_opt PInt (CourseBase.enrollment c)]"

definition CourseRead_model_dump :: "CourseRead \<Rightarrow> pydict" where
  "CourseRead_model_dump c =
     (CourseBase_model_dump c)
       (''id'' \<mapsto> PUUID (CourseRead.id' c),
        ''created_at'' \<mapsto> PDatetime (CourseRead.created_at c),
        ''updated_at'' \<mapsto> PDatetime (CourseRead.updated_at c))"



text \<open>
  The constructors \<^verbatim>\<open>CourseBase(**d)\<close> and \<^verbatim>\<open>CourseRead(**d)\<close>: every field is validated
  against its declared type.
\<close>

definition CourseBase_validate :: "pydict \<Rightarrow> error + CourseBase" where
  "CourseBase_validate d =
     bind_err (req_str d ''department_code'') (\<lambda>v1.
     bind_err (req_str d ''course_code'') (\<lambda>v2.
     bind_err (req_str d ''title'') (\<lambda>v3.
     bind_err (req_str d ''instructor'') (\<lambda>v4.
     bind_err (req_str d ''days'') (\<lambda>v5.
     bind_err (req_str d ''start_time'') (\<lambda>v6.
     bind_err (req_str d ''end_time'') (\<lambda>v7.
     bind_err (req_str d ''location'') (\<lambda>v8.
     bind_err (req_int d ''size'') (\<lambda>v9.
     bind_err (req_int d ''credit'') (\<lambda>v10.
     bind_err (opt_str d ''section'') (\<lambda>v11.
     bind_err (opt_int d ''enrollment'') (\<lambda>v12.
     Inr \<lparr>CourseBase.department_code = v1, CourseBase.course_code = v2,
          CourseBase.title = v3, CourseBase.instructor = v4, CourseBase.days = v5,
          CourseBase.start_time = v6, CourseBase.end_time = v7, CourseBase.location = v8,
          CourseBase.size' = v9, CourseBase.credit = v10, CourseBase.section = v11,
          CourseBase.enrollment = v12\<rparr>))))))))))))"

definition CourseRead_validate :: "pydict \<Rightarrow> error + CourseRead" where
  "CourseRead_validate d =
     bind_err (CourseBase_validate d) (\<lambda>b.
     bind_err (req_uuid d ''id'') (\<lambda>i.
     bind_err (req_datetime d ''created_at'') (\<lambda>c.
     bind_err (req_datetime d ''updated_at'') (\<lambda>u.
     Inr (CourseBase.extend b (CourseRead.fields i c u))))))"

text \<open>
  Attribute access \<^verbatim>\<open>c.name\<close> on a \<^verbatim>\<open>CourseRead\<close>: the value of the field of that name,
  and \<^verbatim>\<open>AttributeError\<close> when the model has no such field.
\<close>

definition CourseRead_getattr :: "CourseRead \<Rightarrow> string \<Rightarrow> error + pyval" where
  "CourseRead_getattr c name =
     (case CourseRead_model_dump c name of None \<Rightarrow> Inl AttributeError | Some v \<Rightarrow> Inr v)"

section \<open>The Student models (\<^verbatim>\<open>models/student.py\<close>)\<close>

text \<open>
  \<^verbatim>\<open>StudentBase\<close> and \<^verbatim>\<open>StudentCreate(StudentBase)\<close>, which adds no field. \<^verbatim>\<open>courses\<close> embeds
  full \<^verbatim>\<open>CourseBase\<close> records.
\<close>

record StudentBase =
  uni :: string
  first_name :: string
  last_name :: string
  major :: string
  grade :: string
  email :: string
  phone :: "string option"
  birth_date :: "date option"
  courses :: "CourseBase list"

type_synonym StudentCreate = StudentBase

record StudentRead = StudentBase +
  id' :: uuid
  created_at :: datetime
  updated_at :: datetime

text \<open>\<^verbatim>\<open>StudentUpdate\<close>, with unset fields as in \<open>CourseUpdate\<close>.\<close>

record StudentUpdate =
  uni :: "string option option"
  first_name :: "string option option"
  last_name :: "string option option"
  major :: "string option option"
  grade :: "string option option"
  email :: "string option option"
  phone :: "string option option"
  birth_date :: "date option option"
  courses :: "CourseBase list option option"

text \<open>
  \<^verbatim>\<open>model_dump()\<close> turns the embedded courses into dictionaries as well. (With
  \<^verbatim>\<open>exclude_unset\<close> an embedded course leaves out an optional field its payload did
  not set; the constructor reads a missing optional field and \<^verbatim>\<open>None\<close> alike, so the
  embedded dictionaries are written in full here.)
\<close>

definition courses_dump :: "CourseBase list \<Rightarrow> pyval" where
  "courses_dump cs = PList (map (\<lambda>c. PDict (CourseBase_model_dump c)) cs)"

definition StudentBase_model_dump :: "'a StudentBase_scheme \<Rightarrow> pydict" where
  "StudentBase_model_dump s =
     [''uni'' \<mapsto> PStr (StudentBase.uni s),
      ''first_name'' \<mapsto> PStr (StudentBase.first_name s),
      ''last_name'' \<mapsto> PStr (StudentBase.last_name s),
      ''major'' \<mapsto> PStr (StudentBase.major s),
      ''grade'' \<mapsto> PStr (StudentBase.grade s),
      ''email'' \<mapsto> PStr (StudentBase.email s),
      ''phone'' \<mapsto> py_opt PStr (StudentBase.phone s),
      ''birth_date'' \<mapsto> py_opt PDate (StudentBase.birth_date s),
      ''courses'' \<mapsto> courses_dump (StudentBase.courses s)]"



text \<open>
  Field validators of the Student models. A \<^verbatim>\<open>UNIType\<close> value is a string that matches
  the UNI pattern. \<^verbatim>\<open>EmailStr\<close> is checked by the \<^verbatim>\<open>email-validator\<close> package, which is
  not part of the repository: its verdict is the parameter \<open>email_ok\<close>, and an
  accepted address is kept as given. An embedded course is built from its dictionary
  by the \<^verbatim>\<open>CourseBase\<close> constructor.
\<close>

definition check :: "('a \<Rightarrow> bool) \<Rightarrow> 'a \<Rightarrow> error + 'a" where
  "check ok v = (if ok v then Inr v else Inl ValidationError)"

definition req_uni :: "pydict \<Rightarrow> string \<Rightarrow> error + string" where
  "req_uni d k = bind_err (req_str d k) (check UNIType)"

definition req_email :: "(string \<Rightarrow> bool) \<Rightarrow> pydict \<Rightarrow> string \<Rightarrow> error + string" where
  "req_email email_ok d k = bind_err (req_str d k) (check email_ok)"

fun validate_list :: "(pyval \<Rightarrow> error + 'a) \<Rightarrow> pyval list \<Rightarrow> error + 'a list" where
  "validate_list f [] = Inr []"
| "validate_list f (v # vs) =
     bind_err (f v) (\<lambda>x. bind_err (validate_list f vs) (\<lambda>xs. Inr (x # xs)))"

definition course_item :: "pyval \<Rightarrow> error + CourseBase" where
  "course_item v = (case v of PDict d \<Rightarrow> CourseBase_validate d | _ \<Rightarrow> Inl ValidationError)"

definition course_list :: "pyval \<Rightarrow> error + CourseBase list" where
  "course_list v = (case v of PList vs \<Rightarrow> validate_list course_item vs | _ \<Rightarrow> Inl ValidationError)"

text \<open>\<^verbatim>\<open>courses: List[CourseBase] = Field(default_factory=list)\<close>.\<close>

definition default_courses :: "pydict \<Rightarrow> string \<Rightarrow> error + CourseBase list" where
  "default_courses d k = (case d k of None \<Rightarrow> Inr [] | Some v \<Rightarrow> course_list v)"

text \<open>The constructors \<^verbatim>\<open>StudentBase(**d)\<close> (also \<^verbatim>\<open>StudentCreate\<close>) and \<^verbatim>\<open>StudentRead(**d)\<close>.\<close>

definition StudentBase_validate :: "(string \<Rightarrow> bool) \<Rightarrow> pydict \<Rightarrow> error + StudentBase" where
  "StudentBase_validate email_ok d =
     bind_err (req_uni d ''uni'') (\<lambda>v1.
     bind_err (req_str d ''first_name'') (\<lambda>v2.
     bind_err (req_str d ''last_name'') (\<lambda>v3.
     bind_err (req_str d ''major'') (\<lambda>v4.
     bind_err (req_str d ''grade'') (\<lambda>v5.
     bind_err (req_email email_ok d ''email'') (\<lambda>v6.
     bind_err (opt_str d ''phone'') (\<lambda>v7.
     bind_err (opt_date d ''birth_date'') (\<lambda>v8.
     bind_err (default_courses d ''courses'') (\<lambda>v9.
     Inr \<lparr>StudentBase.uni = v1, StudentBase.first_name = v2, StudentBase.last_name = v3,
          StudentBase.major = v4, StudentBase.grade = v5, StudentBase.email = v6,
          StudentBase.phone = v7, StudentBase.birth_date = v8,
          StudentBase.courses = v9\<rparr>)))))))))"

definition StudentRead_validate :: "(string \<Rightarrow> bool) \<Rightarrow> pydict \<Rightarrow> error + StudentRead" where
  "StudentRead_validate email_ok d =
     bind_err (StudentBase_validate email_ok d) (\<lambda>b.
     bind_err (req_uuid d ''id'') (\<lambda>i.
     bind_err (req_datetime d ''created_at'') (\<lambda>c.
     bind_err (req_datetime d ''updated_at'') (\<lambda>u.
     Inr (StudentBase.extend b (StudentRead.fields i c u))))))"

text \<open>
  The constructor \<^verbatim>\<open>StudentUpdate(**d)\<close>: a keyword that is missing leaves its field
  unset; one that is given is \<^verbatim>\<open>None\<close> or a value of the field's type, and a \<^verbatim>\<open>uni\<close>
  that is given and not \<^verbatim>\<open>None\<close> is a \<^verbatim>\<open>UNIType\<close>.
\<close>

definition upd_field :: "(pyval \<Rightarrow> error + 'a) \<Rightarrow> pydict \<Rightarrow> string \<Rightarrow> error + 'a option option" where
  "upd_field f d k = (case d k of None \<Rightarrow> Inr None | Some PNone \<Rightarrow> Inr (Some None)
     | Some v \<Rightarrow> bind_err (f v) (\<lambda>x. Inr (Some (Some x))))"

definition a_str :: "pyval \<Rightarrow> error + string" where
  "a_str v = (case v of PStr s \<Rightarrow> Inr s | _ \<Rightarrow> Inl ValidationError)"

definition a_date :: "pyval \<Rightarrow> error + date" where
  "a_date v = (case v of PDate x \<Rightarrow> Inr x | _ \<Rightarrow> Inl ValidationError)"

definition StudentUpdate_validate :: "(string \<Rightarrow> bool) \<Rightarrow> pydict \<Rightarrow> error + StudentUpdate" where
  "StudentUpdate_validate email_ok d =
     bind_err (upd_field (\<lambda>v. bind_err (a_str v) (check UNIType)) d ''uni'') (\<lambda>v1.
     bind_err (upd_field a_str d ''first_name'') (\<lambda>v2.
     bind_err (upd_field a_str d ''last_name'') (\<lambda>v3.
     bind_err (upd_field a_str d ''major'') (\<lambda>v4.
     bind_err (upd_field a_str d ''grade'') (\<lambda>v5.
     bind_err (upd_field (\<lambda>v. bind_err (a_str v) (check email_ok)) d ''email'') (\<lambda>v6.
     bind_err (upd_field a_str d ''phone'') (\<lambda>v7.
     bind_err (upd_field a_date d ''birth_date'') (\<lambda>v8.
     bind_err (upd_field course_list d ''courses'') (\<lambda>v9.
     Inr \<lparr>StudentUpdate.uni = v1, StudentUpdate.first_name = v2,
          StudentUpdate.last_name = v3, StudentUpdate.major = v4, StudentUpdate.grade = v5,
          StudentUpdate.email = v6, StudentUpdate.phone = v7, StudentUpdate.birth_date = v8,
          StudentUpdate.courses = v9\<rparr>)))))))))"

section \<open>The store and the Course handlers (\<^verbatim>\<open>main.py\<close>)\<close>

text \<open>
  The two module-level dictionaries. A Python \<^verbatim>\<open>dict\<close> keeps its keys in insertion
  order, which \<^verbatim>\<open>list(d.values())\<close> shows, so each is an association list:
  \<^verbatim>\<open>d[k] = v\<close> is \<^const>\<open>AList.update\<close> (in place for a key already there, at the end for a
  new one), \<^verbatim>\<open>del d[k]\<close> is \<^const>\<open>AList.delete\<close>, \<^verbatim>\<open>k in d\<close> is \<open>dict_contains\<close> and
  \<^verbatim>\<open>d[k]\<close> is \<open>dict_getitem\<close>.
\<close>

record store =
  students :: "(uuid \<times> StudentRead) list"
  courses :: "(uuid \<times> CourseRead) list"

definition dict_contains :: "('k \<times> 'v) list \<Rightarrow> 'k \<Rightarrow> bool" where
  "dict_contains d k = (map_of d k \<noteq> None)"

definition dict_getitem :: "('k \<times> 'v) list \<Rightarrow> 'k \<Rightarrow> error + 'v" where
  "dict_getitem d k = (case map_of d k of None \<Rightarrow> Inl KeyError | Some v \<Rightarrow> Inr v)"

definition dict_values :: "('k \<times> 'v) list \<Rightarrow> 'v list" where
  "dict_values d = map snd d"

text \<open>
  \<^verbatim>\<open>create_course\<close>. \<open>new_id\<close> is what \<^verbatim>\<open>uuid4()\<close> returned and \<open>now\<close> what
  \<^verbatim>\<open>datetime.utcnow()\<close> returned.
\<close>

definition create_course ::
  "CourseCreate \<Rightarrow> uuid \<Rightarrow> datetime \<Rightarrow> store \<Rightarrow> (error + CourseRead) \<times> store" where
  "create_course course new_id now st =
     (if dict_contains (store.courses st) new_id
      then (Inl (HTTPException 400 ''Course with this ID already exists''), st)
      else
        (case CourseRead_validate
                ((CourseBase_model_dump course)
                   (''id'' \<mapsto> PUUID new_id, ''created_at'' \<mapsto> PDatetime now,
                    ''updated_at'' \<mapsto> PDatetime now)) of
           Inl e \<Rightarrow> (Inl e, st)
         | Inr r \<Rightarrow>
             (let st' = st\<lparr>store.courses := AList.update new_id r (store.courses st)\<rparr>
              in (dict_getitem (store.courses st') new_id, st'))))"

text \<open>\<^verbatim>\<open>get_course\<close>.\<close>

definition get_course :: "uuid \<Rightarrow> store \<Rightarrow> error + CourseRead" where
  "get_course course_id st =
     (if \<not> dict_contains (store.courses st) course_id
      then Inl (HTTPException 404 ''Course not found'')
      else dict_getitem (store.courses st) course_id)"


text \<open>\<^verbatim>\<open>delete_course\<close>.\<close>

definition delete_course :: "uuid \<Rightarrow> store \<Rightarrow> (error + CourseRead) \<times> store" where
  "delete_course course_id st =
     (if \<not> dict_contains (store.courses st) course_id
      then (Inl (HTTPException 404 ''Course not found''), st)
      else
        (case dict_getitem (store.courses st) course_id of
           Inl e \<Rightarrow> (Inl e, st)
         | Inr course_to_delete \<Rightarrow>
             (Inr course_to_delete,
              st\<lparr>store.courses := AList.delete course_id (store.courses st)\<rparr>)))"

text \<open>
  \<^verbatim>\<open>list_courses\<close>. Each \<^verbatim>\<open>if q is not None: results = [c for c in results if ...]\<close> is one
  step, \<open>when_given\<close> a query parameter. A comprehension whose condition raises ends
  with that exception at the first element it tests (\<open>list_comp\<close>), and tests nothing
  on an empty list; a condition that cannot raise is \<open>keep\<close>.
\<close>

fun list_comp :: "('a \<Rightarrow> error + bool) \<Rightarrow> 'a list \<Rightarrow> error + 'a list" where
  "list_comp cond [] = Inr []"
| "list_comp cond (x # xs) =
     bind_err (cond x) (\<lambda>b. bind_err (list_comp cond xs) (\<lambda>ys. Inr (if b then x # ys else ys)))"

definition keep :: "('a \<Rightarrow> bool) \<Rightarrow> 'a list \<Rightarrow> error + 'a list" where
  "keep cond results = Inr (filter cond results)"

definition when_given ::
  "'q option \<Rightarrow> ('q \<Rightarrow> 'a list \<Rightarrow> error + 'a list) \<Rightarrow> 'a list \<Rightarrow> error + 'a list" where
  "when_given q step results = (case q of None \<Rightarrow> Inr results | Some v \<Rightarrow> step v results)"

definition course_by_department_code :: "string \<Rightarrow> CourseRead list \<Rightarrow> error + CourseRead list" where
  "course_by_department_code q =
     keep (\<lambda>c. str_lower (CourseBase.department_code c) = str_lower q)"

text \<open>
  The condition reads \<^verbatim>\<open>c.course_id\<close>; the model's field is \<^verbatim>\<open>course_code\<close>.
\<close>

definition course_by_course_code :: "string \<Rightarrow> CourseRead list \<Rightarrow> error + CourseRead list" where
  "course_by_course_code q =
     list_comp (\<lambda>c. bind_err (CourseRead_getattr c ''course_id'') (\<lambda>a. Inr (a = PStr q)))"

definition course_by_title :: "string \<Rightarrow> CourseRead list \<Rightarrow> error + CourseRead list" where
  "course_by_title q = keep (\<lambda>c. str_in (str_lower q) (str_lower (CourseBase.title c)))"

definition course_by_instructor :: "string \<Rightarrow> CourseRead list \<Rightarrow> error + CourseRead list" where
  "course_by_instructor q =
     keep (\<lambda>c. str_in (str_lower q) (str_lower (CourseBase.instructor c)))"

definition course_by_days :: "string \<Rightarrow> CourseRead list \<Rightarrow> error + CourseRead list" where
  "course_by_days q = keep (\<lambda>c. str_in (str_lower q) (str_lower (CourseBase.days c)))"

definition course_by_start_time :: "string \<Rightarrow> CourseRead list \<Rightarrow> error + CourseRead list" where
  "course_by_start_time q = keep (\<lambda>c. str_lower (CourseBase.start_time c) = str_lower q)"

definition course_by_end_time :: "string \<Rightarrow> CourseRead list \<Rightarrow> error + CourseRead list" where
  "course_by_end_time q = keep (\<lambda>c. str_lower (CourseBase.end_time c) = str_lower q)"

definition list_courses ::
  "string option \<Rightarrow> string option \<Rightarrow> string option \<Rightarrow> string option \<Rightarrow> string option \<Rightarrow>
   string option \<Rightarrow> string option \<Rightarrow> store \<Rightarrow> error + CourseRead list" where
  "list_courses q_department_code q_course_code q_title q_instructor q_days q_start_time
       q_end_time st =
     bind_err (Inr (dict_values (store.courses st))) (\<lambda>results.
     bind_err (when_given q_department_code course_by_department_code results) (\<lambda>results.
     bind_err (when_given q_course_code course_by_course_code results) (\<lambda>results.
     bind_err (when_given q_title course_by_title results) (\<lambda>results.
     bind_err (when_given q_instructor course_by_instructor results) (\<lambda>results.
     bind_err (when_given q_days course_by_days results) (\<lambda>results.
     bind_err (when_given q_start_time course_by_start_time results) (\<lambda>results.
     bind_err (when_given q_end_time course_by_end_time results) (\<lambda>results.
     Inr results))))))))"

section \<open>The Student handlers (\<^verbatim>\<open>main.py\<close>)\<close>

text \<open>
  \<^verbatim>\<open>student_read[new_id] = student_read\<close> assigns to an item of the model object, which
  defines no item assignment: the interpreter raises \<^verbatim>\<open>TypeError\<close>.
\<close>

definition StudentRead_setitem :: "StudentRead \<Rightarrow> uuid \<Rightarrow> StudentRead \<Rightarrow> error + unit" where
  "StudentRead_setitem obj k v = Inl TypeError"

text \<open>
  \<^verbatim>\<open>create_student\<close>: the collision test reads \<^verbatim>\<open>courses\<close>, and the record built is
  assigned into itself, not into \<^verbatim>\<open>students\<close>.
\<close>

definition create_student ::
  "(string \<Rightarrow> bool) \<Rightarrow> StudentCreate \<Rightarrow> uuid \<Rightarrow> datetime \<Rightarrow> store
     \<Rightarrow> (error + StudentRead) \<times> store" where
  "create_student email_ok student new_id now st =
     (if dict_contains (store.courses st) new_id
      then (Inl (HTTPException 400 ''Student with this ID already exists''), st)
      else
        (case StudentRead_validate email_ok
                ((StudentBase_model_dump student)
                   (''id'' \<mapsto> PUUID new_id, ''created_at'' \<mapsto> PDatetime now,
                    ''updated_at'' \<mapsto> PDatetime now)) of
           Inl e \<Rightarrow> (Inl e, st)
         | Inr student_read \<Rightarrow>
             (case StudentRead_setitem student_read new_id student_read of
                Inl e \<Rightarrow> (Inl e, st)
              | Inr _ \<Rightarrow> (Inr student_read, st))))"

text \<open>
  \<^verbatim>\<open>get_person\<close>: \<^verbatim>\<open>student_id[student_id]\<close> subscripts the \<^verbatim>\<open>UUID\<close>, which is not
  subscriptable: \<^verbatim>\<open>TypeError\<close>.
\<close>

definition UUID_getitem :: "uuid \<Rightarrow> uuid \<Rightarrow> error + StudentRead" where
  "UUID_getitem obj k = Inl TypeError"

definition get_person :: "uuid \<Rightarrow> store \<Rightarrow> error + StudentRead" where
  "get_person student_id st =
     (if \<not> dict_contains (store.students st) student_id
      then Inl (HTTPException 404 ''Student not found'')
      else UUID_getitem student_id student_id)"


text \<open>\<^verbatim>\<open>delete_person\<close>.\<close>

definition delete_person :: "uuid \<Rightarrow> store \<Rightarrow> (error + StudentRead) \<times> store" where
  "delete_person student_id st =
     (if \<not> dict_contains (store.students st) student_id
      then (Inl (HTTPException 404 ''Student not found''), st)
      else
        (case dict_getitem (store.students st) student_id of
           Inl e \<Rightarrow> (Inl e, st)
         | Inr student_to_delete \<Rightarrow>
             (Inr student_to_delete,
              st\<lparr>store.students := AList.delete student_id (store.students st)\<rparr>)))"

text \<open>\<^verbatim>\<open>list_students\<close>, step by step as \<open>list_courses\<close>.\<close>

definition student_by_uni :: "string \<Rightarrow> StudentRead list \<Rightarrow> error + StudentRead list" where
  "student_by_uni q = keep (\<lambda>s. str_lower (StudentBase.uni s) = str_lower q)"

definition student_by_first_name :: "string \<Rightarrow> StudentRead list \<Rightarrow> error + StudentRead list" where
  "student_by_first_name q = keep (\<lambda>s. str_lower (StudentBase.first_name s) = str_lower q)"

definition student_by_last_name :: "string \<Rightarrow> StudentRead list \<Rightarrow> error + StudentRead list" where
  "student_by_last_name q = keep (\<lambda>s. str_lower (StudentBase.last_name s) = str_lower q)"

definition student_by_major :: "string \<Rightarrow> StudentRead list \<Rightarrow> error + StudentRead list" where
  "student_by_major q = keep (\<lambda>s. str_lower (StudentBase.major s) = str_lower q)"

definition student_by_grade :: "string \<Rightarrow> StudentRead list \<Rightarrow> error + StudentRead list" where
  "student_by_grade q = keep (\<lambda>s. str_lower (StudentBase.grade s) = str_lower q)"

definition student_by_email :: "string \<Rightarrow> StudentRead list \<Rightarrow> error + StudentRead list" where
  "student_by_email q = keep (\<lambda>s. StudentBase.email s = q)"

definition student_by_phone :: "string \<Rightarrow> StudentRead list \<Rightarrow> error + StudentRead list" where
  "student_by_phone q = keep (\<lambda>s. StudentBase.phone s = Some q)"

definition student_by_birth_date :: "string \<Rightarrow> StudentRead list \<Rightarrow> error + StudentRead list" where
  "student_by_birth_date q = keep (\<lambda>s. str_date (StudentBase.birth_date s) = q)"

definition student_by_department_code ::
  "string \<Rightarrow> StudentRead list \<Rightarrow> error + StudentRead list" where
  "student_by_department_code q =
     keep (\<lambda>s. list_ex (\<lambda>course. str_lower (CourseBase.department_code course) = str_lower q)
                  (StudentBase.courses s))"

text \<open>
  The condition of the instructor step iterates \<^verbatim>\<open>p.courses\<close>. No \<^verbatim>\<open>p\<close> is bound in the
  comprehension, the function or the module, so reading the name raises \<^verbatim>\<open>NameError\<close>.
\<close>

definition name_p :: "error + StudentRead" where
  "name_p = Inl NameError"

definition student_by_instructor :: "string \<Rightarrow> StudentRead list \<Rightarrow> error + StudentRead list" where
  "student_by_instructor q =
     list_comp (\<lambda>s. bind_err name_p (\<lambda>p.
        Inr (list_ex (\<lambda>course. str_lower (CourseBase.instructor course) = str_lower q)
               (StudentBase.courses p))))"

definition list_students ::
  "string option \<Rightarrow> string option \<Rightarrow> string option \<Rightarrow> string option \<Rightarrow> string option \<Rightarrow>
   string option \<Rightarrow> string option \<Rightarrow> string option \<Rightarrow> string option \<Rightarrow> string option \<Rightarrow>
   store \<Rightarrow> error + StudentRead list" where
  "list_students q_uni q_first_name q_last_name q_major q_grade q_email q_phone q_birth_date
       q_department_code q_instructor st =
     bind_err (Inr (dict_values (store.students st))) (\<lambda>results.
     bind_err (when_given q_uni student_by_uni results) (\<lambda>results.
     bind_err (when_given q_first_name student_by_first_name results) (\<lambda>results.
     bind_err (when_given q_last_name student_by_last_name results) (\<lambda>results.
     bind_err (when_given q_major student_by_major results) (\<lambda>results.
     bind_err (when_given q_grade student_by_grade results) (\<lambda>results.
     bind_err (when_given q_email student_by_email results) (\<lambda>results.
     bind_err (when_given q_phone student_by_phone results) (\<lambda>results.
     bind_err (when_given q_birth_date student_by_birth_date results) (\<lambda>results.
     bind_err (when_given q_department_code student_by_department_code results) (\<lambda>results.
     bind_err (when_given q_instructor student_by_instructor results) (\<lambda>results.
     Inr results)))))))))))"

text \<open>
  The steps of a listing as a sequence, to apply them in another order than the
  handler's.
\<close>

fun run_filters :: "('a list \<Rightarrow> error + 'a list) list \<Rightarrow> 'a list \<Rightarrow> error + 'a list" where
  "run_filters [] results = Inr results"
| "run_filters (step # steps) results = bind_err (step results) (run_filters steps)"

definition course_filters ::
  "string option \<Rightarrow> string option \<Rightarrow> string option \<Rightarrow> string option \<Rightarrow> string option \<Rightarrow>
   string option \<Rightarrow> string option \<Rightarrow> (CourseRead list \<Rightarrow> error + CourseRead list) list" where
  "course_filters q_department_code q_course_code q_title q_instructor q_days q_start_time
       q_end_time =
     [when_given q_department_code course_by_department_code,
      when_given q_course_code course_by_course_code,
      when_given q_title course_by_title,
      when_given q_instructor course_by_instructor,
      when_given q_days course_by_days,
      when_given q_start_time course_by_start_time,
      when_given q_end_time course_by_end_time]"

definition student_filters ::
  "string option \<Rightarrow> string option \<Rightarrow> string option \<Rightarrow> string option \<Rightarrow> string option \<Rightarrow>
   string option \<Rightarrow> string option \<Rightarrow> string option \<Rightarrow> string option \<Rightarrow> string option \<Rightarrow>
   (StudentRead list \<Rightarrow> error + StudentRead list) list" where
  "student_filters q_uni q_first_name q_last_name q_major q_grade q_email q_phone q_birth_date
       q_department_code q_instructor =
     [when_given q_uni student_by_uni,
      when_given q_first_name student_by_first_name,
      when_given q_last_name student_by_last_name,
      when_given q_major student_by_major,
      when_given q_grade student_by_grade,
      when_given q_email student_by_email,
      when_given q_phone student_by_phone,
      when_given q_birth_date student_by_birth_date,
      when_given q_department_code student_by_department_code,
      when_given q_instructor student_by_instructor]"

section \<open>The filter engine in the specification's words\<close>

text \<open>
  The specification words a listing as the conjunction of the predicates of the
  parameters that are supplied, a parameter that is not supplied imposing no
  constraint. \<open>course_matches\<close> and \<open>student_matches\<close> say so for every parameter but
  \<^verbatim>\<open>course_code\<close> of courses and \<^verbatim>\<open>instructor\<close> of students; they are compared with the
  handlers' steps below.
\<close>

definition given :: "'q option \<Rightarrow> ('q \<Rightarrow> bool) \<Rightarrow> bool" where
  "given q cond = (case q of None \<Rightarrow> True | Some v \<Rightarrow> cond v)"

definition course_matches ::
  "string option \<Rightarrow> string option \<Rightarrow> string option \<Rightarrow> string option \<Rightarrow> string option \<Rightarrow>
   string option \<Rightarrow> CourseRead \<Rightarrow> bool" where
  "course_matches q_department_code q_title q_instructor q_days q_start_time q_end_time c =
     (given q_department_code (\<lambda>q. str_lower (CourseBase.department_code c) = str_lower q) \<and>
      given q_title (\<lambda>q. str_in (str_lower q) (str_lower (CourseBase.title c))) \<and>
      given q_instructor (\<lambda>q. str_in (str_lower q) (str_lower (CourseBase.instructor c))) \<and>
      given q_days (\<lambda>q. str_in (str_lower q) (str_lower (CourseBase.days c))) \<and>
      given q_start_time (\<lambda>q. str_lower (CourseBase.start_time c) = str_lower q) \<and>
      given q_end_time (\<lambda>q. str_lower (CourseBase.end_time c) = str_lower q))"

definition student_matches ::
  "string option \<Rightarrow> string option \<Rightarrow> string option \<Rightarrow> string option \<Rightarrow> string option \<Rightarrow>
   string option \<Rightarrow> string option \<Rightarrow> string option \<Rightarrow> string option \<Rightarrow> StudentRead \<Rightarrow> bool" where
  "student_matches q_uni q_first_name q_last_name q_major q_grade q_email q_phone q_birth_date
       q_department_code s =
     (given q_uni (\<lambda>q. str_lower (StudentBase.uni s) = str_lower q) \<and>
      given q_first_name (\<lambda>q. str_lower (StudentBase.first_name s) = str_lower q) \<and>
      given q_last_name (\<lambda>q. str_lower (StudentBase.last_name s) = str_lower q) \<and>
      given q_major (\<lambda>q. str_lower (StudentBase.major s) = str_lower q) \<and>
      given q_grade (\<lambda>q. str_lower (StudentBase.grade s) = str_lower q) \<and>
      given q_email (\<lambda>q. StudentBase.email s = q) \<and>
      given q_phone (\<lambda>q. StudentBase.phone s = Some q) \<and>
      given q_birth_date (\<lambda>q. str_date (StudentBase.birth_date s) = q) \<and>
      given q_department_code (\<lambda>q.
        list_ex (\<lambda>course. str_lower (CourseBase.department_code course) = str_lower q)
          (StudentBase.courses s)))"

text \<open>A computation that raises no exception but the given one.\<close>

definition raises_only :: "error \<Rightarrow> error + 'a \<Rightarrow> bool" where
  "raises_only err m = (case m of Inl e \<Rightarrow> e = err | Inr _ \<Rightarrow> True)"

section \<open>Example data\<close>

text \<open>
  The course of the specification's scenario, a student record that embeds it, and
  the store before any request.
\<close>

definition cloud_computing :: CourseCreate where
  "cloud_computing =
     \<lparr>CourseBase.department_code = ''COMS'', CourseBase.course_code = ''4153'',
      CourseBase.title = ''Cloud Computing'', CourseBase.instructor = ''Donald Ferguson'',
      CourseBase.days = ''F'', CourseBase.start_time = ''1:10PM'',
      CourseBase.end_time = ''3:45PM'', CourseBase.location = ''501 NORTHWEST CORNER'',
      CourseBase.size' = 100, CourseBase.credit = 3, CourseBase.section = None,
      CourseBase.enrollment = None\<rparr>"

definition ada :: StudentCreate where
  "ada =
     \<lparr>StudentBase.uni = ''abc1234'', StudentBase.first_name = ''Ada'',
      StudentBase.last_name = ''Lovelace'', StudentBase.major = ''Computer Science'',
      StudentBase.grade = ''Senior'', StudentBase.email = ''ada@example.com'',
      StudentBase.phone = Some ''+1-212-555-0199'',
      StudentBase.birth_date = Some (Date 1815 12 10),
      StudentBase.courses = [cloud_computing]\<rparr>"

definition empty_store :: store where
  "empty_store = \<lparr>store.students = [], store.courses = []\<rparr>"

text \<open>The stored form of a payload, under a given identifier and creation time.\<close>

definition course_read :: "CourseCreate \<Rightarrow> uuid \<Rightarrow> datetime \<Rightarrow> CourseRead" where
  "course_read course new_id now = CourseBase.extend course (CourseRead.fields new_id now now)"

definition student_read :: "StudentCreate \<Rightarrow> uuid \<Rightarrow> datetime \<Rightarrow> StudentRead" where
  "student_read student new_id now =
     StudentBase.extend student (StudentRead.fields new_id now now)"

text \<open>A stand-in for the address check in the examples: an address holds an \<^verbatim>\<open>@\<close>.\<close>

definition has_at :: "string \<Rightarrow> bool" where
  "has_at s = (CHR ''@'' \<in> set s)"

text \<open>
  A store that holds the example course under identifier 7 and the example student
  under identifier 9, both created at time 5; an update payload for each, and the
  records the updates lead to at time 8.
\<close>

definition stored_store :: store where
  "stored_store = \<lparr>store.students = [(9, student_read ada 9 5)],
                   store.courses = [(7, course_read cloud_computing 7 5)]\<rparr>"





text \<open>An update payload that sets \<^verbatim>\<open>uni\<close> and nothing else.\<close>

definition uni_only :: "string \<Rightarrow> StudentUpdate" where
  "uni_only x = \<lparr>StudentUpdate.uni = Some (Some x), StudentUpdate.first_name = None,
     StudentUpdate.last_name = None, StudentUpdate.major = None, StudentUpdate.grade = None,
     StudentUpdate.email = None, StudentUpdate.phone = None,
     StudentUpdate.birth_date = None, StudentUpdate.courses = None\<rparr>"

section \<open>Basic facts about the embedding\<close>

lemma bind_err_simps [simp]:
  "bind_err (Inl e) f = Inl e" "bind_err (Inr x) f = f x"
  by (simp_all add: bind_err_def)

lemma bind_err_eq_Inr: "bind_err m f = Inr y \<longleftrightarrow> (\<exists>x. m = Inr x \<and> f x = Inr y)"
  by (cases m) simp_all

lemma py_opt_simps [simp]: "py_opt f None = PNone" "py_opt f (Some v) = f v"
  by (simp_all add: py_opt_def)

lemma req_str_Inr: "req_str d k = Inr s \<longleftrightarrow> d k = Some (PStr s)"
  by (simp add: req_str_def split: option.splits pyval.splits)

lemma req_int_Inr: "req_int d k = Inr s \<longleftrightarrow> d k = Some (PInt s)"
  by (simp add: req_int_def split: option.splits pyval.splits)

lemma req_uuid_Inr: "req_uuid d k = Inr s \<longleftrightarrow> d k = Some (PUUID s)"
  by (simp add: req_uuid_def split: option.splits pyval.splits)

lemma req_datetime_Inr: "req_datetime d k = Inr s \<longleftrightarrow> d k = Some (PDatetime s)"
  by (simp add: req_datetime_def split: option.splits pyval.splits)

lemma opt_str_Inr: "opt_str d k = Inr x \<longleftrightarrow> (d k = None \<and> x = None) \<or> d k = Some (py_opt PStr x)"
  by (cases x) (auto simp add: opt_str_def split: option.splits pyval.splits)

lemma opt_int_Inr: "opt_int d k = Inr x \<longleftrightarrow> (d k = None \<and> x = None) \<or> d k = Some (py_opt PInt x)"
  by (cases x) (auto simp add: opt_int_def split: option.splits pyval.splits)


lemma CourseBase_validate_Inr:
  "CourseBase_validate d = Inr b \<longleftrightarrow>
     req_str d ''department_code'' = Inr (CourseBase.department_code b) \<and>
     req_str d ''course_code'' = Inr (CourseBase.course_code b) \<and>
     req_str d ''title'' = Inr (CourseBase.title b) \<and>
     req_str d ''instructor'' = Inr (CourseBase.instructor b) \<and>
     req_str d ''days'' = Inr (CourseBase.days b) \<and>
     req_str d ''start_time'' = Inr (CourseBase.start_time b) \<and>
     req_str d ''end_time'' = Inr (CourseBase.end_time b) \<and>
     req_str d ''location'' = Inr (CourseBase.location b) \<and>
     req_int d ''size'' = Inr (CourseBase.size' b) \<and>
     req_int d ''credit'' = Inr (CourseBase.credit b) \<and>
     opt_str d ''section'' = Inr (CourseBase.section b) \<and>
     opt_int d ''enrollment'' = Inr (CourseBase.enrollment b)"
  by (cases b) (auto simp add: CourseBase_validate_def bind_err_eq_Inr)


lemma CourseRead_validate_Inr:
  "CourseRead_validate d = Inr r \<longleftrightarrow>
     CourseBase_validate d = Inr (CourseBase.truncate r) \<and>
     req_uuid d ''id'' = Inr (CourseRead.id' r) \<and>
     req_datetime d ''created_at'' = Inr (CourseRead.created_at r) \<and>
     req_datetime d ''updated_at'' = Inr (CourseRead.updated_at r)"
  by (cases r) (auto simp add: CourseRead_validate_def bind_err_eq_Inr CourseBase.extend_def
      CourseBase.truncate_def CourseRead.fields_def)






lemma dict_getitem_update: "dict_getitem (AList.update k v al) k = Inr v"
  by (simp add: dict_getitem_def update_conv')

lemma dict_contains_getitem: "dict_contains al k \<longleftrightarrow> (\<exists>v. dict_getitem al k = Inr v)"
  by (auto simp add: dict_contains_def dict_getitem_def split: option.splits)





lemma check_Inr: "check ok v = Inr x \<longleftrightarrow> ok v \<and> x = v"
  by (auto simp add: check_def)

lemma req_uni_Inr: "req_uni d k = Inr s \<longleftrightarrow> d k = Some (PStr s) \<and> UNIType s"
  by (auto simp add: req_uni_def bind_err_eq_Inr req_str_Inr check_Inr)


lemma CourseBase_truncate [simp]: "CourseBase.truncate (c :: CourseBase) = c"
  by (cases c) (simp add: CourseBase.truncate_def)



lemma StudentBase_validate_Inr:
  "StudentBase_validate ok d = Inr b \<longleftrightarrow>
     req_uni d ''uni'' = Inr (StudentBase.uni b) \<and>
     req_str d ''first_name'' = Inr (StudentBase.first_name b) \<and>
     req_str d ''last_name'' = Inr (StudentBase.last_name b) \<and>
     req_str d ''major'' = Inr (StudentBase.major b) \<and>
     req_str d ''grade'' = Inr (StudentBase.grade b) \<and>
     req_email ok d ''email'' = Inr (StudentBase.email b) \<and>
     opt_str d ''phone'' = Inr (StudentBase.phone b) \<and>
     opt_date d ''birth_date'' = Inr (StudentBase.birth_date b) \<and>
     default_courses d ''courses'' = Inr (StudentBase.courses b)"
  by (cases b) (auto simp add: StudentBase_validate_def bind_err_eq_Inr)















lemma create_course_validates:
  "CourseRead_validate
     ((CourseBase_model_dump course)
        (''id'' \<mapsto> PUUID new_id, ''created_at'' \<mapsto> PDatetime now,
         ''updated_at'' \<mapsto> PDatetime now))
   = Inr (course_read course new_id now)"
  by (simp add: CourseRead_validate_Inr CourseBase_validate_Inr req_str_Inr req_int_Inr
      req_uuid_Inr req_datetime_Inr opt_str_Inr opt_int_Inr CourseBase_model_dump_def
      course_read_def CourseBase.extend_def CourseBase.truncate_def CourseRead.fields_def)

lemma create_course_fresh:
  assumes "\<not> dict_contains (store.courses st) new_id"
  shows "create_course course new_id now st =
     (Inr (course_read course new_id now),
      st\<lparr>store.courses := AList.update new_id (course_read course new_id now) (store.courses st)\<rparr>)"
  using assms
  by (simp add: create_course_def create_course_validates dict_getitem_update Let_def)

lemma create_course_collision:
  assumes "dict_contains (store.courses st) new_id"
  shows "create_course course new_id now st =
     (Inl (HTTPException 400 ''Course with this ID already exists''), st)"
  using assms by (simp add: create_course_def)

lemma course_read_sel [simp]:
  "CourseRead.id' (course_read course new_id now) = new_id"
  "CourseRead.created_at (course_read course new_id now) = now"
  "CourseRead.updated_at (course_read course new_id now) = now"
  "CourseBase.truncate (course_read course new_id now) = course"
  by (simp_all add: course_read_def CourseBase.extend_def CourseBase.truncate_def
      CourseRead.fields_def)

lemma dict_contains_update [simp]: "dict_contains (AList.update k v al) k"
  by (simp add: dict_contains_def update_conv')

lemma dict_contains_delete [simp]: "\<not> dict_contains (AList.delete k al) k"
  by (simp add: dict_contains_def delete_conv')

lemma delete_course_stored:
  assumes "dict_getitem (store.courses st) course_id = Inr c"
  shows "delete_course course_id st =
     (Inr c, st\<lparr>store.courses := AList.delete course_id (store.courses st)\<rparr>)"
  using assms dict_contains_getitem [of "store.courses st" course_id]
  by (simp add: delete_course_def)

lemma delete_person_stored:
  assumes "dict_getitem (store.students st) student_id = Inr s"
  shows "delete_person student_id st =
     (Inr s, st\<lparr>store.students := AList.delete student_id (store.students st)\<rparr>)"
  using assms dict_contains_getitem [of "store.students st" student_id]
  by (simp add: delete_person_def)

lemma course_read_base [simp]:
  "CourseBase.department_code (course_read course new_id now) = CourseBase.department_code course"
  "CourseBase.course_code (course_read course new_id now) = CourseBase.course_code course"
  "CourseBase.title (course_read course new_id now) = CourseBase.title course"
  "CourseBase.instructor (course_read course new_id now) = CourseBase.instructor course"
  "CourseBase.days (course_read course new_id now) = CourseBase.days course"
  "CourseBase.start_time (course_read course new_id now) = CourseBase.start_time course"
  "CourseBase.end_time (course_read course new_id now) = CourseBase.end_time course"
  "CourseBase.location (course_read course new_id now) = CourseBase.location course"
  "CourseBase.size' (course_read course new_id now) = CourseBase.size' course"
  "CourseBase.credit (course_read course new_id now) = CourseBase.credit course"
  "CourseBase.section (course_read course new_id now) = CourseBase.section course"
  "CourseBase.enrollment (course_read course new_id now) = CourseBase.enrollment course"
  by (simp_all add: course_read_def CourseBase.extend_def)

lemma when_given_simps [simp]:
  "when_given None step results = Inr results"
  "when_given (Some v) step results = step v results"
  by (simp_all add: when_given_def)

lemma ferguson_matches: "str_in (str_lower ''ferguson'') (str_lower ''Donald Ferguson'')"
  by code_simp

lemma upd_uni_Inr:
  "upd_field (\<lambda>v. bind_err (a_str v) (check UNIType)) d k = Inr x \<longleftrightarrow>
     (d k = None \<and> x = None) \<or> (d k = Some PNone \<and> x = Some None) \<or>
     (\<exists>s. d k = Some (PStr s) \<and> UNIType s \<and> x = Some (Some s))"
  by (auto simp add: upd_field_def a_str_def check_def bind_err_eq_Inr
      split: option.splits pyval.splits if_splits)

lemma StudentUpdate_validate_uni:
  assumes "StudentUpdate_validate ok d = Inr u"
  shows "upd_field (\<lambda>v. bind_err (a_str v) (check UNIType)) d ''uni''
     = Inr (StudentUpdate.uni u)"
  using assms by (cases u) (auto simp add: StudentUpdate_validate_def bind_err_eq_Inr)

lemma bad_uni_Base:
  assumes "d ''uni'' = Some (PStr x)" "\<not> UNIType x"
  shows "StudentBase_validate ok d = Inl ValidationError"
  using assms by (simp add: StudentBase_validate_def req_uni_def req_str_def check_def)

lemma bad_uni_Read:
  assumes "d ''uni'' = Some (PStr x)" "\<not> UNIType x"
  shows "StudentRead_validate ok d = Inl ValidationError"
  using assms by (simp add: StudentRead_validate_def bad_uni_Base)

lemma bad_uni_Update:
  assumes "d ''uni'' = Some (PStr x)" "\<not> UNIType x"
  shows "StudentUpdate_validate ok d = Inl ValidationError"
  using assms
  by (simp add: StudentUpdate_validate_def upd_field_def a_str_def check_def)

lemma uni_examples:
  "UNIType ''abc1234''" "\<not> UNIType ''ABCD1''" "\<not> UNIType ''ab12345''" "\<not> UNIType ''a1''"
  by code_simp+

lemma course_id_no_field: "CourseRead_getattr c ''course_id'' = Inl AttributeError"
  by (simp add: CourseRead_getattr_def CourseRead_model_dump_def CourseBase_model_dump_def)

lemma course_by_course_code_cases:
  "course_by_course_code q results = (if results = [] then Inr [] else Inl AttributeError)"
  by (cases results) (simp_all add: course_by_course_code_def course_id_no_field)

lemma keep_Nil [simp]: "keep cond [] = Inr []"
  by (simp add: keep_def)

lemma course_steps_Nil:
  "when_given q1 course_by_title [] = Inr []"
  "when_given q2 course_by_instructor [] = Inr []"
  "when_given q3 course_by_days [] = Inr []"
  "when_given q4 course_by_start_time [] = Inr []"
  "when_given q5 course_by_end_time [] = Inr []"
  by (simp_all add: when_given_def course_by_title_def course_by_instructor_def
      course_by_days_def course_by_start_time_def course_by_end_time_def split: option.splits)

lemma department_step:
  "when_given q course_by_department_code results =
     Inr (case q of None \<Rightarrow> results
          | Some v \<Rightarrow> filter (\<lambda>c. str_lower (CourseBase.department_code c) = str_lower v) results)"
  by (simp add: when_given_def course_by_department_code_def keep_def split: option.splits)

lemma coms_is_not_math: "str_lower ''COMS'' \<noteq> str_lower ''MATH''"
  by code_simp

lemma stored_courses:
  "dict_values (store.courses stored_store) = [course_read cloud_computing 7 5]"
  "CourseBase.department_code cloud_computing = ''COMS''"
  by (simp_all add: stored_store_def dict_values_def cloud_computing_def)

lemma run_filters_unfold:
  "run_filters [] = Inr"
  "run_filters (step # steps) = (\<lambda>results. bind_err (step results) (run_filters steps))"
  by (rule ext, simp)+

lemma list_courses_run_filters:
  "list_courses q1 q2 q3 q4 q5 q6 q7 st =
     run_filters (course_filters q1 q2 q3 q4 q5 q6 q7) (dict_values (store.courses st))"
  by (simp add: list_courses_def course_filters_def run_filters_unfold)

lemma list_students_run_filters:
  "list_students q1 q2 q3 q4 q5 q6 q7 q8 q9 q10 st =
     run_filters (student_filters q1 q2 q3 q4 q5 q6 q7 q8 q9 q10)
       (dict_values (store.students st))"
  by (simp add: list_students_def student_filters_def run_filters_unfold)

lemma raises_only_simps [simp]:
  "raises_only err (Inr x)" "raises_only err (Inl e) \<longleftrightarrow> e = err"
  by (simp_all add: raises_only_def)

lemma raises_only_bind:
  assumes "raises_only err m" "\<And>x. raises_only err (f x)"
  shows "raises_only err (bind_err m f)"
  using assms by (cases m) simp_all

lemma raises_only_getters:
  "raises_only ValidationError (req_str d k)"
  "raises_only ValidationError (req_int d k)"
  "raises_only ValidationError (req_uuid d k)"
  "raises_only ValidationError (req_datetime d k)"
  "raises_only ValidationError (opt_str d k)"
  "raises_only ValidationError (opt_int d k)"
  "raises_only ValidationError (opt_date d k)"
  "raises_only ValidationError (check ok v)"
  by (simp_all add: req_str_def req_int_def req_uuid_def req_datetime_def opt_str_def
      opt_int_def opt_date_def check_def split: option.splits pyval.splits)

lemma raises_only_CourseBase: "raises_only ValidationError (CourseBase_validate d)"
  unfolding CourseBase_validate_def
  by (intro raises_only_bind raises_only_getters) simp

lemma raises_only_validate_list:
  assumes "\<And>v. raises_only err (f v)"
  shows "raises_only err (validate_list f vs)"
  by (induction vs) (simp_all add: raises_only_bind assms)

lemma raises_only_courses: "raises_only ValidationError (default_courses d k)"
  by (simp add: default_courses_def course_list_def course_item_def raises_only_validate_list
      raises_only_CourseBase split: option.splits pyval.splits)

lemma raises_only_StudentRead: "raises_only ValidationError (StudentRead_validate ok d)"
  unfolding StudentRead_validate_def StudentBase_validate_def req_uni_def req_email_def
  by (intro raises_only_bind raises_only_getters raises_only_courses) simp_all

lemma create_student_conflict:
  "(fst (create_student email_ok student new_id now st)
      = Inl (HTTPException 400 ''Student with this ID already exists''))
   = dict_contains (store.courses st) new_id"
proof (cases "dict_contains (store.courses st) new_id")
  case True
  then show ?thesis by (simp add: create_student_def)
next
  case False
  let ?v = "StudentRead_validate email_ok ((StudentBase_model_dump student)
          (''id'' \<mapsto> PUUID new_id, ''created_at'' \<mapsto> PDatetime now,
           ''updated_at'' \<mapsto> PDatetime now))"
  have "fst (create_student email_ok student new_id now st) = Inl ValidationError \<or>
        fst (create_student email_ok student new_id now st) = Inl TypeError"
    using False raises_only_StudentRead [of email_ok "(StudentBase_model_dump student)
          (''id'' \<mapsto> PUUID new_id, ''created_at'' \<mapsto> PDatetime now,
           ''updated_at'' \<mapsto> PDatetime now)"]
    by (cases ?v) (simp_all add: create_student_def StudentRead_setitem_def)
  with False show ?thesis by auto
qed

lemma keep_single: "keep cond [x] = Inr [x] \<longleftrightarrow> cond x"
  by (simp add: keep_def)

lemma run_filters_keeps:
  assumes "\<forall>f \<in> set steps. \<exists>cond. f = keep cond"
  shows "run_filters steps results
     = Inr (filter (\<lambda>x. \<forall>f \<in> set steps. f [x] = Inr [x]) results)"
  using assms
proof (induction steps arbitrary: results)
  case Nil
  then show ?case by simp
next
  case (Cons f steps)
  then obtain cond where f: "f = keep cond" by auto
  from Cons have "run_filters steps (filter cond results)
     = Inr (filter (\<lambda>x. \<forall>f \<in> set steps. f [x] = Inr [x]) (filter cond results))"
    by simp
  moreover have "filter (\<lambda>x. \<forall>g \<in> set steps. g [x] = Inr [x]) (filter cond results)
     = filter (\<lambda>x. \<forall>g \<in> set (f # steps). g [x] = Inr [x]) results"
    by (auto simp add: f keep_def intro: filter_cong)
  ultimately show ?case
    by (simp add: f keep_def)
qed

lemma when_given_keep:
  "when_given q (\<lambda>v. keep (cond v)) = keep (\<lambda>x. given q (\<lambda>v. cond v x))"
  by (rule ext) (simp add: when_given_def given_def keep_def split: option.splits)

lemma course_steps_keep:
  "when_given q course_by_department_code
     = keep (\<lambda>c. given q (\<lambda>v. str_lower (CourseBase.department_code c) = str_lower v))"
  "when_given q course_by_title
     = keep (\<lambda>c. given q (\<lambda>v. str_in (str_lower v) (str_lower (CourseBase.title c))))"
  "when_given q course_by_instructor
     = keep (\<lambda>c. given q (\<lambda>v. str_in (str_lower v) (str_lower (CourseBase.instructor c))))"
  "when_given q course_by_days
     = keep (\<lambda>c. given q (\<lambda>v. str_in (str_lower v) (str_lower (CourseBase.days c))))"
  "when_given q course_by_start_time
     = keep (\<lambda>c. given q (\<lambda>v. str_lower (CourseBase.start_time c) = str_lower v))"
  "when_given q course_by_end_time
     = keep (\<lambda>c. given q (\<lambda>v. str_lower (CourseBase.end_time c) = str_lower v))"
  "when_given None course_by_course_code = keep (\<lambda>c. True)"
  by (rule ext, simp add: when_given_def given_def keep_def course_by_department_code_def
      course_by_title_def course_by_instructor_def course_by_days_def course_by_start_time_def
      course_by_end_time_def split: option.splits)+

lemma course_filters_pure:
  assumes "set steps = set (course_filters q1 None q3 q4 q5 q6 q7)"
  shows "run_filters steps results = Inr (filter (course_matches q1 q3 q4 q5 q6 q7) results)"
proof -
  have "\<forall>f \<in> set steps. \<exists>cond. f = keep cond"
    unfolding assms course_filters_def course_steps_keep by auto
  from run_filters_keeps [OF this]
  have "run_filters steps results
     = Inr (filter (\<lambda>x. \<forall>f \<in> set (course_filters q1 None q3 q4 q5 q6 q7). f [x] = Inr [x])
              results)"
    by (simp add: assms)
  also have "(\<lambda>x. \<forall>f \<in> set (course_filters q1 None q3 q4 q5 q6 q7). f [x] = Inr [x])
     = course_matches q1 q3 q4 q5 q6 q7"
    by (rule ext) (simp add: course_filters_def course_steps_keep keep_single course_matches_def)
  finally show ?thesis .
qed

lemma student_steps_keep:
  "when_given q student_by_uni
     = keep (\<lambda>s. given q (\<lambda>v. str_lower (StudentBase.uni s) = str_lower v))"
  "when_given q student_by_first_name
     = keep (\<lambda>s. given q (\<lambda>v. str_lower (StudentBase.first_name s) = str_lower v))"
  "when_given q student_by_last_name
     = keep (\<lambda>s. given q (\<lambda>v. str_lower (StudentBase.last_name s) = str_lower v))"
  "when_given q student_by_major
     = keep (\<lambda>s. given q (\<lambda>v. str_lower (StudentBase.major s) = str_lower v))"
  "when_given q student_by_grade
     = keep (\<lambda>s. given q (\<lambda>v. str_lower (StudentBase.grade s) = str_lower v))"
  "when_given q student_by_email = keep (\<lambda>s. given q (\<lambda>v. StudentBase.email s = v))"
  "when_given q student_by_phone = keep (\<lambda>s. given q (\<lambda>v. StudentBase.phone s = Some v))"
  "when_given q student_by_birth_date
     = keep (\<lambda>s. given q (\<lambda>v. str_date (StudentBase.birth_date s) = v))"
  "when_given q student_by_department_code
     = keep (\<lambda>s. given q (\<lambda>v.
         list_ex (\<lambda>course. str_lower (CourseBase.department_code course) = str_lower v)
           (StudentBase.courses s)))"
  "when_given None student_by_instructor = keep (\<lambda>s. True)"
  by (rule ext, simp add: when_given_def given_def keep_def student_by_uni_def
      student_by_first_name_def student_by_last_name_def student_by_major_def
      student_by_grade_def student_by_email_def student_by_phone_def student_by_birth_date_def
      student_by_department_code_def split: option.splits)+

lemma student_filters_pure:
  assumes "set steps = set (student_filters q1 q2 q3 q4 q5 q6 q7 q8 q9 None)"
  shows "run_filters steps results
     = Inr (filter (student_matches q1 q2 q3 q4 q5 q6 q7 q8 q9) results)"
proof -
  have "\<forall>f \<in> set steps. \<exists>cond. f = keep cond"
    unfolding assms student_filters_def student_steps_keep by auto
  from run_filters_keeps [OF this]
  have "run_filters steps results
     = Inr (filter (\<lambda>x. \<forall>f \<in> set (student_filters q1 q2 q3 q4 q5 q6 q7 q8 q9 None).
                f [x] = Inr [x]) results)"
    by (simp add: assms)
  also have "(\<lambda>x. \<forall>f \<in> set (student_filters q1 q2 q3 q4 q5 q6 q7 q8 q9 None). f [x] = Inr [x])
     = student_matches q1 q2 q3 q4 q5 q6 q7 q8 q9"
    by (rule ext) (simp add: student_filters_def student_steps_keep keep_single student_matches_def)
  finally show ?thesis .
qed

lemma iter_match_class:
  assumes f: "\<And>s. f s = (case s of [] \<Rightarrow> [] | c # cs \<Rightarrow> if ok c then [cs] else [])"
  shows "iter_match f k s =
     (if k \<le> length s \<and> list_all ok (take k s) then [drop k s] else [])"
proof -
  have f_Nil: "f [] = []" and f_Cons: "f (c # cs) = (if ok c then [cs] else [])" for c cs
    by (simp_all add: f)
  show ?thesis
  proof (induction k arbitrary: s)
    case 0
    then show ?case by simp
  next
    case (Suc k)
    show ?case
    proof (cases s)
      case Nil
      then show ?thesis by (simp add: f_Nil)
    next
      case (Cons c cs)
      then have "iter_match f (Suc k) s = (if ok c then iter_match f k cs else [])"
        by (simp add: f_Cons)
      with Suc [of cs] Cons show ?thesis by auto
    qed
  qed
qed

lemma rmatch_repeat_range:
  "r \<in> set (rmatch (Repeat (CharRange lo hi) m n) s) \<longleftrightarrow>
     (\<exists>k. m \<le> k \<and> k \<le> n \<and> k \<le> length s \<and> list_all (in_range lo hi) (take k s) \<and>
          r = drop k s)"
proof -
  have f: "rmatch (CharRange lo hi) s =
      (case s of [] \<Rightarrow> [] | c # cs \<Rightarrow> if in_range lo hi c then [cs] else [])" for s
    by simp
  have "r \<in> set (rmatch (Repeat (CharRange lo hi) m n) s) \<longleftrightarrow>
      (\<exists>k \<in> {m..<Suc n}. r \<in> set (iter_match (rmatch (CharRange lo hi)) k s))"
    by (auto simp del: rmatch.simps(1))
  also have "\<dots> \<longleftrightarrow> (\<exists>k \<in> {m..<Suc n}. k \<le> length s \<and>
      list_all (in_range lo hi) (take k s) \<and> r = drop k s)"
    by (simp only: iter_match_class [of "rmatch (CharRange lo hi)", OF f]) auto
  also have "\<dots> \<longleftrightarrow> (\<exists>k. m \<le> k \<and> k \<le> n \<and> k \<le> length s \<and>
      list_all (in_range lo hi) (take k s) \<and> r = drop k s)"
    by auto
  finally show ?thesis .
qed

lemma bind_err_assoc: "bind_err (bind_err m f) g = bind_err m (\<lambda>x. bind_err (f x) g)"
  by (cases m) simp_all

lemma bind_err_Inr: "bind_err m Inr = m"
  by (cases m) simp_all

lemma student_by_instructor_cases:
  "student_by_instructor q results = (if results = [] then Inr [] else Inl NameError)"
  by (cases results) (simp_all add: student_by_instructor_def name_p_def)

lemma list_students_then_instructor:
  "list_students q1 q2 q3 q4 q5 q6 q7 q8 q9 q10 st =
     bind_err (list_students q1 q2 q3 q4 q5 q6 q7 q8 q9 None st)
       (when_given q10 student_by_instructor)"
  by (simp add: list_students_def bind_err_assoc bind_err_Inr)

lemma student_instructor_general:
  "list_students q1 q2 q3 q4 q5 q6 q7 q8 q9 (Some q) st =
     (if filter (student_matches q1 q2 q3 q4 q5 q6 q7 q8 q9) (dict_values (store.students st))
           = []
      then Inr [] else Inl NameError)"
proof -
  have "list_students q1 q2 q3 q4 q5 q6 q7 q8 q9 None st
      = Inr (filter (student_matches q1 q2 q3 q4 q5 q6 q7 q8 q9)
               (dict_values (store.students st)))"
    by (simp only: list_students_run_filters student_filters_pure [OF refl])
  with list_students_then_instructor [of q1 q2 q3 q4 q5 q6 q7 q8 q9 "Some q" st]
  show ?thesis
    by (simp add: student_by_instructor_cases)
qed

section \<open>Partial update\<close>



section \<open>Delete, then get\<close>

text \<open>
  C4. A course that \<open>create_course\<close> created is stored under the identifier it was
  given; deleting it returns the stored record and removes it, and a get with the same
  identifier then ends with the 404 \<open>HTTPException\<close>. The same holds for every record
  found in the course store or the student store, however it came there, so for every
  record a create could have stored. Deleting an identifier that a store does not hold
  ends with the 404 \<open>HTTPException\<close> and leaves the store as it was.
\<close>

theorem delete_then_get_not_found:
  "(create_course course new_id now st0 = (Inr r, st1) \<longrightarrow>
      CourseRead.id' r = new_id \<and>
      dict_getitem (store.courses st1) new_id = Inr r \<and>
      delete_course new_id st1
        = (Inr r, st1\<lparr>store.courses := AList.delete new_id (store.courses st1)\<rparr>) \<and>
      get_course new_id (st1\<lparr>store.courses := AList.delete new_id (store.courses st1)\<rparr>)
        = Inl (HTTPException 404 ''Course not found'')) \<and>
   (dict_getitem (store.courses st) course_id = Inr c \<longrightarrow>
      delete_course course_id st
        = (Inr c, st\<lparr>store.courses := AList.delete course_id (store.courses st)\<rparr>)) \<and>
   \<not> dict_contains (AList.delete course_id (store.courses st)) course_id \<and>
   get_course course_id (st\<lparr>store.courses := AList.delete course_id (store.courses st)\<rparr>)
     = Inl (HTTPException 404 ''Course not found'') \<and>
   (\<not> dict_contains (store.courses st) absent_id \<longrightarrow>
      delete_course absent_id st = (Inl (HTTPException 404 ''Course not found''), st)) \<and>
   (dict_getitem (store.students st) student_id = Inr s \<longrightarrow>
      delete_person student_id st
        = (Inr s, st\<lparr>store.students := AList.delete student_id (store.students st)\<rparr>)) \<and>
   \<not> dict_contains (AList.delete student_id (store.students st)) student_id \<and>
   get_person student_id (st\<lparr>store.students := AList.delete student_id (store.students st)\<rparr>)
     = Inl (HTTPException 404 ''Student not found'') \<and>
   (\<not> dict_contains (store.students st) absent_id \<longrightarrow>
      delete_person absent_id st = (Inl (HTTPException 404 ''Student not found''), st))"
proof -
  have gone_course: "get_course k (t\<lparr>store.courses := AList.delete k (store.courses t)\<rparr>)
     = Inl (HTTPException 404 ''Course not found'')" for k t
    by (simp add: get_course_def)
  have gone_student: "get_person k (t\<lparr>store.students := AList.delete k (store.students t)\<rparr>)
     = Inl (HTTPException 404 ''Student not found'')" for k t
    by (simp add: get_person_def)
  have created: "CourseRead.id' r = new_id \<and>
      dict_getitem (store.courses st1) new_id = Inr r \<and>
      delete_course new_id st1
        = (Inr r, st1\<lparr>store.courses := AList.delete new_id (store.courses st1)\<rparr>)"
    if c: "create_course course new_id now st0 = (Inr r, st1)"
  proof -
    from c have fresh: "\<not> dict_contains (store.courses st0) new_id"
      by (auto simp add: create_course_def split: if_splits)
    from c create_course_fresh [OF fresh, of course now]
    have r: "r = course_read course new_id now"
      and st1: "st1 = st0\<lparr>store.courses := AList.update new_id r (store.courses st0)\<rparr>"
      by auto
    from st1 have "dict_getitem (store.courses st1) new_id = Inr r"
      by (simp add: dict_getitem_update)
    then show ?thesis using r by (simp add: delete_course_stored)
  qed
  have absent_course: "delete_course absent_id st
      = (Inl (HTTPException 404 ''Course not found''), st)"
    if "\<not> dict_contains (store.courses st) absent_id"
    using that by (simp add: delete_course_def)
  have absent_student: "delete_person absent_id st
      = (Inl (HTTPException 404 ''Student not found''), st)"
    if "\<not> dict_contains (store.students st) absent_id"
    using that by (simp add: delete_person_def)
  show ?thesis
    using created absent_course absent_student gone_course gone_student
      delete_course_stored [of st course_id c] delete_person_stored [of st student_id s]
      dict_contains_delete [of course_id "store.courses st"]
      dict_contains_delete [of student_id "store.students st"]
    by blast
qed

theorem delete_then_get_not_found_witness:
  "create_course cloud_computing 7 5 empty_store
     = (Inr (course_read cloud_computing 7 5),
        empty_store\<lparr>store.courses := [(7, course_read cloud_computing 7 5)]\<rparr>) \<and>
   delete_course 7 (empty_store\<lparr>store.courses := [(7, course_read cloud_computing 7 5)]\<rparr>)
     = (Inr (course_read cloud_computing 7 5), empty_store) \<and>
   get_course 7 empty_store = Inl (HTTPException 404 ''Course not found'') \<and>
   dict_getitem (store.courses stored_store) 7 = Inr (course_read cloud_computing 7 5) \<and>
   delete_course 7 stored_store
     = (Inr (course_read cloud_computing 7 5), stored_store\<lparr>store.courses := []\<rparr>) \<and>
   \<not> dict_contains (store.courses stored_store) 3 \<and>
   delete_course 3 stored_store = (Inl (HTTPException 404 ''Course not found''), stored_store) \<and>
   dict_getitem (store.students stored_store) 9 = Inr (student_read ada 9 5) \<and>
   delete_person 9 stored_store
     = (Inr (student_read ada 9 5), stored_store\<lparr>store.students := []\<rparr>) \<and>
   get_person 9 (stored_store\<lparr>store.students := []\<rparr>)
     = Inl (HTTPException 404 ''Student not found'') \<and>
   \<not> dict_contains (store.students stored_store) 3 \<and>
   delete_person 3 stored_store = (Inl (HTTPException 404 ''Student not found''), stored_store)"
proof -
  have h1: "create_course cloud_computing 7 5 empty_store
     = (Inr (course_read cloud_computing 7 5),
        empty_store\<lparr>store.courses := [(7, course_read cloud_computing 7 5)]\<rparr>)"
    by code_simp
  have h2: "dict_getitem (store.courses stored_store) 7 = Inr (course_read cloud_computing 7 5)"
    by code_simp
  have h3: "\<not> dict_contains (store.courses stored_store) 3"
    by code_simp
  have h4: "dict_getitem (store.students stored_store) 9 = Inr (student_read ada 9 5)"
    by code_simp
  have h5: "\<not> dict_contains (store.students stored_store) 3"
    by code_simp
  have d: "AList.delete 7 (store.courses stored_store) = []"
    "AList.delete 9 (store.students stored_store) = []"
    "AList.delete 7 [(7, course_read cloud_computing 7 5)] = []"
    "empty_store\<lparr>store.courses := []\<rparr> = empty_store"
    by (simp_all add: stored_store_def empty_store_def)
  from delete_then_get_not_found [where course = cloud_computing and new_id = 7 and now = 5
      and ?st0.0 = empty_store and r = "course_read cloud_computing 7 5"
      and ?st1.0 = "empty_store\<lparr>store.courses := [(7, course_read cloud_computing 7 5)]\<rparr>"
      and st = stored_store and course_id = 7 and c = "course_read cloud_computing 7 5"
      and absent_id = 3 and student_id = 9 and s = "student_read ada 9 5"]
    h1 h2 h3 h4 h5
  show ?thesis by (simp add: d)
qed

section \<open>The scenario of the specification\<close>

text \<open>
  C8. Creating the Cloud Computing course in the empty store, under whatever identifier
  and time the handler draws, stores and returns its record; listing the courses with
  \<^verbatim>\<open>instructor=ferguson\<close> then returns exactly that record. The instructor step keeps
  the courses whose lower-cased instructor contains the lower-cased parameter as a
  substring.
\<close>

theorem ferguson_scenario:
  "create_course cloud_computing new_id now empty_store
     = (Inr (course_read cloud_computing new_id now),
        empty_store\<lparr>store.courses := [(new_id, course_read cloud_computing new_id now)]\<rparr>) \<and>
   list_courses None None None (Some ''ferguson'') None None None
       (empty_store\<lparr>store.courses := [(new_id, course_read cloud_computing new_id now)]\<rparr>)
     = Inr [course_read cloud_computing new_id now] \<and>
   list_courses None None None (Some q) None None None st
     = Inr (filter (\<lambda>c. sublist (str_lower q) (str_lower (CourseBase.instructor c)))
              (dict_values (store.courses st)))"
proof (intro conjI)
  have "\<not> dict_contains (store.courses empty_store) new_id"
    by (simp add: empty_store_def dict_contains_def)
  from create_course_fresh [OF this]
  show "create_course cloud_computing new_id now empty_store
     = (Inr (course_read cloud_computing new_id now),
        empty_store\<lparr>store.courses := [(new_id, course_read cloud_computing new_id now)]\<rparr>)"
    by (simp add: empty_store_def)
  show general: "list_courses None None None (Some q) None None None st
     = Inr (filter (\<lambda>c. sublist (str_lower q) (str_lower (CourseBase.instructor c)))
              (dict_values (store.courses st)))" for q st
    by (simp add: list_courses_def course_by_instructor_def keep_def str_in_def)
  have "CourseBase.instructor cloud_computing = ''Donald Ferguson''"
    by (simp add: cloud_computing_def)
  with ferguson_matches
  show "list_courses None None None (Some ''ferguson'') None None None
       (empty_store\<lparr>store.courses := [(new_id, course_read cloud_computing new_id now)]\<rparr>)
     = Inr [course_read cloud_computing new_id now]"
    by (simp add: general dict_values_def str_in_def)
qed

section \<open>The UNI pattern in Create and Update payloads\<close>

text \<open>
  C9. Both the \<^verbatim>\<open>StudentCreate\<close> constructor and the \<^verbatim>\<open>StudentUpdate\<close> constructor check
  a \<^verbatim>\<open>uni\<close> that is given as a string against the UNI pattern: a string that does not
  match ends either with \<open>ValidationError\<close>, and a \<^verbatim>\<open>uni\<close> that either returns matches.
  \<^verbatim>\<open>abc1234\<close> matches and is accepted in a full and in a partial payload;
  \<^verbatim>\<open>ABCD1\<close>, \<^verbatim>\<open>ab12345\<close> and \<^verbatim>\<open>a1\<close> do not match.
\<close>

theorem uni_pattern_enforced:
  "(d ''uni'' = Some (PStr x) \<and> \<not> UNIType x \<longrightarrow>
      StudentBase_validate email_ok d = Inl ValidationError \<and>
      StudentUpdate_validate email_ok d = Inl ValidationError) \<and>
   (StudentBase_validate email_ok d = Inr s \<longrightarrow>
      d ''uni'' = Some (PStr (StudentBase.uni s)) \<and> UNIType (StudentBase.uni s)) \<and>
   (StudentUpdate_validate email_ok d = Inr u \<and> StudentUpdate.uni u = Some (Some y) \<longrightarrow>
      d ''uni'' = Some (PStr y) \<and> UNIType y) \<and>
   UNIType ''abc1234'' \<and> \<not> UNIType ''ABCD1'' \<and> \<not> UNIType ''ab12345'' \<and> \<not> UNIType ''a1'' \<and>
   StudentBase_validate has_at (StudentBase_model_dump ada) = Inr ada \<and>
   StudentUpdate_validate has_at [''uni'' \<mapsto> PStr ''abc1234''] = Inr (uni_only ''abc1234'')"
proof -
  have base: "d ''uni'' = Some (PStr (StudentBase.uni s)) \<and> UNIType (StudentBase.uni s)"
    if "StudentBase_validate email_ok d = Inr s"
    using that by (simp add: StudentBase_validate_Inr req_uni_Inr)
  have upd: "d ''uni'' = Some (PStr y) \<and> UNIType y"
    if "StudentUpdate_validate email_ok d = Inr u" "StudentUpdate.uni u = Some (Some y)"
    using StudentUpdate_validate_uni [OF that(1)] that(2) by (auto simp add: upd_uni_Inr)
  have ok1: "StudentBase_validate has_at (StudentBase_model_dump ada) = Inr ada"
    by code_simp
  have ok2: "StudentUpdate_validate has_at [''uni'' \<mapsto> PStr ''abc1234''] = Inr (uni_only ''abc1234'')"
    by code_simp
  show ?thesis
    using base upd ok1 ok2 uni_examples bad_uni_Base [of d x email_ok]
      bad_uni_Update [of d x email_ok]
    by blast
qed

theorem uni_pattern_enforced_witness:
  "StudentBase_validate has_at ((StudentBase_model_dump ada)(''uni'' \<mapsto> PStr ''ABCD1''))
     = Inl ValidationError \<and>
   StudentUpdate_validate has_at ((StudentBase_model_dump ada)(''uni'' \<mapsto> PStr ''ABCD1''))
     = Inl ValidationError \<and>
   StudentBase_validate has_at (StudentBase_model_dump ada) = Inr ada \<and>
   StudentBase_model_dump ada ''uni'' = Some (PStr ''abc1234'') \<and> UNIType ''abc1234'' \<and>
   StudentUpdate_validate has_at [''uni'' \<mapsto> PStr ''abc1234''] = Inr (uni_only ''abc1234'') \<and>
   StudentUpdate.uni (uni_only ''abc1234'') = Some (Some ''abc1234'')"
proof -
  have u: "StudentBase.uni ada = ''abc1234''"
    "StudentUpdate.uni (uni_only ''abc1234'') = Some (Some ''abc1234'')"
    by (simp_all add: ada_def uni_only_def)
  have bad: "((StudentBase_model_dump ada)(''uni'' \<mapsto> PStr ''ABCD1'')) ''uni''
      = Some (PStr ''ABCD1'')"
    by simp
  from uni_pattern_enforced [where d = "(StudentBase_model_dump ada)(''uni'' \<mapsto> PStr ''ABCD1'')"
      and x = "''ABCD1''" and email_ok = has_at] bad
  have 1: "StudentBase_validate has_at ((StudentBase_model_dump ada)(''uni'' \<mapsto> PStr ''ABCD1''))
       = Inl ValidationError"
    "StudentUpdate_validate has_at ((StudentBase_model_dump ada)(''uni'' \<mapsto> PStr ''ABCD1''))
       = Inl ValidationError"
    by blast+
  from uni_pattern_enforced [where d = "StudentBase_model_dump ada" and email_ok = has_at
      and s = ada]
  have 2: "StudentBase_validate has_at (StudentBase_model_dump ada) = Inr ada"
    "StudentBase_model_dump ada ''uni'' = Some (PStr ''abc1234'')" "UNIType ''abc1234''"
    using u by simp_all
  from uni_pattern_enforced [where d = "[''uni'' \<mapsto> PStr ''abc1234'']" and email_ok = has_at
      and u = "uni_only ''abc1234''" and y = "''abc1234''"]
  have 3: "StudentUpdate_validate has_at [''uni'' \<mapsto> PStr ''abc1234''] = Inr (uni_only ''abc1234'')"
    by blast
  from 1 2 3 u show ?thesis by simp
qed

section \<open>Listing courses by course code\<close>

text \<open>
  C10, as the code has it. Reading \<^verbatim>\<open>course_id\<close> from a \<^verbatim>\<open>CourseRead\<close> yields no value but
  \<open>AttributeError\<close>, for every record. A course listing that is given \<^verbatim>\<open>course_code\<close>
  ends with that exception exactly when some stored course is left after the
  \<^verbatim>\<open>department_code\<close> step, and returns the empty list when none is; so it fails on
  every non-empty store when \<^verbatim>\<open>department_code\<close> is not given.
\<close>

theorem course_code_listing_fails:
  "CourseRead_getattr c ''course_id'' = Inl AttributeError \<and>
   list_courses q_department_code (Some q_course_code) q_title q_instructor q_days q_start_time
       q_end_time st
     = (if when_given q_department_code course_by_department_code
             (dict_values (store.courses st)) = Inr []
        then Inr [] else Inl AttributeError) \<and>
   (store.courses st \<noteq> [] \<longrightarrow>
      list_courses None (Some q_course_code) q_title q_instructor q_days q_start_time
          q_end_time st = Inl AttributeError)"
proof (intro conjI impI)
  show "CourseRead_getattr c ''course_id'' = Inl AttributeError"
    by (rule course_id_no_field)
  show general: "list_courses dc (Some q_course_code) q_title q_instructor q_days q_start_time
       q_end_time st
     = (if when_given dc course_by_department_code
             (dict_values (store.courses st)) = Inr []
        then Inr [] else Inl AttributeError)" for dc
    by (simp add: list_courses_def department_step course_by_course_code_cases course_steps_Nil)
  assume "store.courses st \<noteq> []"
  then show "list_courses None (Some q_course_code) q_title q_instructor q_days q_start_time
          q_end_time st = Inl AttributeError"
    by (simp add: general dict_values_def)
qed

theorem course_code_listing_fails_witness:
  "store.courses stored_store \<noteq> [] \<and>
   list_courses None (Some ''4153'') None None None None None stored_store = Inl AttributeError"
proof -
  have "store.courses stored_store \<noteq> []"
    by (simp add: stored_store_def)
  with course_code_listing_fails [where st = stored_store and q_course_code = "''4153''"
      and q_title = None and q_instructor = None and q_days = None and q_start_time = None
      and q_end_time = None]
  show ?thesis by blast
qed

text \<open>
  C10 as stated fails: on a store that holds one course of department COMS, the
  listing with \<^verbatim>\<open>department_code=MATH\<close> and \<^verbatim>\<open>course_code=4153\<close> returns the empty list.
  The department step leaves nothing for the course-code comprehension to test.
\<close>

theorem course_code_listing_counterexample:
  "store.courses stored_store \<noteq> [] \<and>
   list_courses (Some ''MATH'') (Some ''4153'') None None None None None stored_store = Inr []"
proof -
  have "store.courses stored_store \<noteq> []"
    by (simp add: stored_store_def)
  moreover have "list_courses (Some ''MATH'') (Some ''4153'') None None None None None
      stored_store = Inr []"
    by (simp add: list_courses_def department_step course_by_course_code_cases
        stored_courses coms_is_not_math)
  ultimately show ?thesis by simp
qed

section \<open>Where the handlers depart from the specification\<close>

text \<open>
  C1. \<open>create_student\<close> never returns a record and never changes the store, whatever it
  is given: on the empty store the example payload ends with \<open>TypeError\<close>, raised by the
  item assignment on the record. \<open>get_person\<close> never returns a record either: on an
  identifier the student store holds it ends with \<open>TypeError\<close>, raised by subscripting
  the identifier, and on any other with the 404 \<open>HTTPException\<close>.
\<close>

theorem create_student_never_stores:
  "snd (create_student email_ok student new_id now st) = st \<and>
   (\<forall>r. fst (create_student email_ok student new_id now st) \<noteq> Inr r) \<and>
   get_person student_id st =
     (if dict_contains (store.students st) student_id then Inl TypeError
      else Inl (HTTPException 404 ''Student not found'')) \<and>
   create_student has_at ada 9 5 empty_store = (Inl TypeError, empty_store) \<and>
   store.students stored_store = [(9, student_read ada 9 5)] \<and>
   get_person 9 stored_store = Inl TypeError"
proof -
  have "snd (create_student email_ok student new_id now st) = st"
    "\<forall>r. fst (create_student email_ok student new_id now st) \<noteq> Inr r"
    by (simp_all add: create_student_def StudentRead_setitem_def split: sum.splits)
  moreover have "get_person student_id st =
     (if dict_contains (store.students st) student_id then Inl TypeError
      else Inl (HTTPException 404 ''Student not found''))"
    by (simp add: get_person_def UUID_getitem_def)
  moreover have "create_student has_at ada 9 5 empty_store = (Inl TypeError, empty_store)"
    by code_simp
  moreover have "store.students stored_store = [(9, student_read ada 9 5)]"
    by (simp add: stored_store_def)
  moreover have "get_person 9 stored_store = Inl TypeError"
    by code_simp
  ultimately show ?thesis by simp
qed

text \<open>
  C2. For the example student payload the \<^verbatim>\<open>StudentRead\<close> that \<open>create_student\<close> builds has
  the payload's fields and equal timestamps, yet the handler does not return it: the
  item assignment that follows raises \<open>TypeError\<close>.
\<close>

theorem create_student_builds_then_raises:
  "StudentRead_validate has_at
     ((StudentBase_model_dump ada)
        (''id'' \<mapsto> PUUID 9, ''created_at'' \<mapsto> PDatetime 5, ''updated_at'' \<mapsto> PDatetime 5))
     = Inr (student_read ada 9 5) \<and>
   StudentBase.truncate (student_read ada 9 5) = ada \<and>
   StudentRead.created_at (student_read ada 9 5) = StudentRead.updated_at (student_read ada 9 5) \<and>
   StudentRead_setitem (student_read ada 9 5) 9 (student_read ada 9 5) = Inl TypeError \<and>
   fst (create_student has_at ada 9 5 empty_store) = Inl TypeError"
  by code_simp

text \<open>
  C5. A student listing that is given \<^verbatim>\<open>instructor\<close> ends with \<open>NameError\<close> as soon as
  one student is left after the other steps, and returns the empty list when none is;
  it retains no student. On a store that holds the example student, whose embedded
  course is taught by Donald Ferguson, the listing with \<^verbatim>\<open>instructor=Donald Ferguson\<close>
  ends with \<open>NameError\<close>; the listing with \<^verbatim>\<open>department_code=coms\<close> returns the student.
\<close>

theorem student_instructor_filter_raises:
  "list_students q1 q2 q3 q4 q5 q6 q7 q8 q9 (Some q) st =
     (if filter (student_matches q1 q2 q3 q4 q5 q6 q7 q8 q9) (dict_values (store.students st))
           = []
      then Inr [] else Inl NameError) \<and>
   dict_values (store.students stored_store) = [student_read ada 9 5] \<and>
   list_students None None None None None None None None None (Some ''Donald Ferguson'')
     stored_store = Inl NameError \<and>
   list_students None None None None None None None None (Some ''coms'') None
     stored_store = Inr [student_read ada 9 5]"
proof -
  have "dict_values (store.students stored_store) = [student_read ada 9 5] \<and>
   list_students None None None None None None None None None (Some ''Donald Ferguson'')
     stored_store = Inl NameError \<and>
   list_students None None None None None None None None (Some ''coms'') None
     stored_store = Inr [student_read ada 9 5]"
    by code_simp
  with student_instructor_general show ?thesis by blast
qed

text \<open>
  C6. \<open>create_student\<close> ends with the 400 \<open>HTTPException\<close> exactly when the course
  store holds the new identifier: with an identifier that only the course store holds
  it does, and with one that only the student store holds it does not.
\<close>

theorem create_student_checks_courses:
  "(fst (create_student email_ok student new_id now st)
      = Inl (HTTPException 400 ''Student with this ID already exists''))
     = dict_contains (store.courses st) new_id \<and>
   \<not> dict_contains (store.students stored_store) 7 \<and>
   create_student has_at ada 7 6 stored_store
     = (Inl (HTTPException 400 ''Student with this ID already exists''), stored_store) \<and>
   dict_contains (store.students stored_store) 9 \<and>
   create_student has_at ada 9 6 stored_store = (Inl TypeError, stored_store)"
proof -
  have "\<not> dict_contains (store.students stored_store) 7 \<and>
   create_student has_at ada 7 6 stored_store
     = (Inl (HTTPException 400 ''Student with this ID already exists''), stored_store) \<and>
   dict_contains (store.students stored_store) 9 \<and>
   create_student has_at ada 9 6 stored_store = (Inl TypeError, stored_store)"
    by code_simp
  with create_student_conflict show ?thesis by blast
qed

text \<open>
  C7. With \<^verbatim>\<open>department_code=MATH\<close> and \<^verbatim>\<open>course_code=4153\<close> on a store that holds one COMS
  course, \<open>list_courses\<close> runs its steps in the handler's order and returns the empty
  list; the same steps in the reverse order end with \<open>AttributeError\<close>. With
  \<^verbatim>\<open>course_code\<close> alone the listing ends with \<open>AttributeError\<close>.
\<close>

theorem course_filters_order_matters:
  "list_courses (Some ''MATH'') (Some ''4153'') None None None None None stored_store
     = run_filters (course_filters (Some ''MATH'') (Some ''4153'') None None None None None)
         (dict_values (store.courses stored_store)) \<and>
   run_filters (course_filters (Some ''MATH'') (Some ''4153'') None None None None None)
     (dict_values (store.courses stored_store)) = Inr [] \<and>
   mset (rev (course_filters (Some ''MATH'') (Some ''4153'') None None None None None))
     = mset (course_filters (Some ''MATH'') (Some ''4153'') None None None None None) \<and>
   run_filters (rev (course_filters (Some ''MATH'') (Some ''4153'') None None None None None))
     (dict_values (store.courses stored_store)) = Inl AttributeError \<and>
   list_courses None (Some ''4153'') None None None None None stored_store
     = Inl AttributeError"
proof -
  have "list_courses (Some ''MATH'') (Some ''4153'') None None None None None stored_store
      = Inr []"
    "list_courses None (Some ''4153'') None None None None None stored_store
      = Inl AttributeError"
    by (simp_all add: list_courses_def department_step course_by_course_code_cases
        stored_courses coms_is_not_math)
  moreover have "run_filters
      (rev (course_filters (Some ''MATH'') (Some ''4153'') None None None None None))
      (dict_values (store.courses stored_store)) = Inl AttributeError"
    by (simp add: course_filters_def course_by_course_code_cases stored_courses)
  ultimately show ?thesis
    by (simp add: list_courses_run_filters)
qed

section \<open>What the handlers do get right\<close>

text \<open>
  \<open>create_course\<close> with an identifier the course store does not hold stores and returns
  the record made of the payload's fields, the identifier and the creation time as both
  timestamps; whenever it returns a record, it is that one, and \<open>get_course\<close> with the
  identifier then returns it.
\<close>

theorem create_course_returns_payload:
  "(\<not> dict_contains (store.courses st) new_id \<longrightarrow>
      create_course course new_id now st
        = (Inr (course_read course new_id now),
           st\<lparr>store.courses :=
                AList.update new_id (course_read course new_id now) (store.courses st)\<rparr>)) \<and>
   CourseBase.truncate (course_read course new_id now) = course \<and>
   CourseRead.id' (course_read course new_id now) = new_id \<and>
   CourseRead.created_at (course_read course new_id now) = now \<and>
   CourseRead.updated_at (course_read course new_id now) = now \<and>
   (create_course course new_id now st = (Inr r, st') \<longrightarrow>
      r = course_read course new_id now \<and> get_course new_id st' = Inr r)"
proof (intro conjI impI)
  assume "\<not> dict_contains (store.courses st) new_id"
  then show "create_course course new_id now st
        = (Inr (course_read course new_id now),
           st\<lparr>store.courses :=
                AList.update new_id (course_read course new_id now) (store.courses st)\<rparr>)"
    by (rule create_course_fresh)
next
  assume c: "create_course course new_id now st = (Inr r, st')"
  then have fresh: "\<not> dict_contains (store.courses st) new_id"
    by (auto simp add: create_course_def split: if_splits)
  from c create_course_fresh [OF fresh, of course now]
  have r: "r = course_read course new_id now"
    and st': "st' = st\<lparr>store.courses := AList.update new_id r (store.courses st)\<rparr>"
    by auto
  from r show "r = course_read course new_id now" .
  from st' show "get_course new_id st' = Inr r"
    by (simp add: get_course_def dict_getitem_update)
qed simp_all

theorem create_course_returns_payload_witness:
  "\<not> dict_contains (store.courses empty_store) 7 \<and>
   create_course cloud_computing 7 5 empty_store
     = (Inr (course_read cloud_computing 7 5),
        empty_store\<lparr>store.courses := [(7, course_read cloud_computing 7 5)]\<rparr>) \<and>
   get_course 7 (empty_store\<lparr>store.courses := [(7, course_read cloud_computing 7 5)]\<rparr>)
     = Inr (course_read cloud_computing 7 5)"
proof -
  have fresh: "\<not> dict_contains (store.courses empty_store) 7"
    by code_simp
  have upd: "AList.update 7 (course_read cloud_computing 7 5) (store.courses empty_store)
      = [(7, course_read cloud_computing 7 5)]"
    by (simp add: empty_store_def)
  from create_course_returns_payload [where st = empty_store and new_id = 7
      and course = cloud_computing and now = 5 and r = "course_read cloud_computing 7 5"
      and st' = "empty_store\<lparr>store.courses := [(7, course_read cloud_computing 7 5)]\<rparr>"]
    fresh
  show ?thesis by (simp add: upd)
qed

text \<open>
  \<open>create_course\<close> ends with the 400 \<open>HTTPException\<close> exactly when the course store
  already holds the new identifier.
\<close>

theorem create_course_conflict:
  "(fst (create_course course new_id now st)
      = Inl (HTTPException 400 ''Course with this ID already exists''))
   = dict_contains (store.courses st) new_id"
  by (cases "dict_contains (store.courses st) new_id")
    (simp_all add: create_course_fresh create_course_collision)

text \<open>
  A student listing that is given \<^verbatim>\<open>department_code\<close> alone keeps exactly the students
  one of whose own embedded courses has that department code, compared in lower case.
\<close>

theorem student_department_filter:
  "list_students None None None None None None None None (Some q) None st
     = Inr (filter (\<lambda>s. list_ex (\<lambda>course.
                str_lower (CourseBase.department_code course) = str_lower q)
              (StudentBase.courses s))
            (dict_values (store.students st)))"
  by (simp add: list_students_def student_by_department_code_def keep_def)

text \<open>
  A course listing without \<^verbatim>\<open>course_code\<close> and a student listing without \<^verbatim>\<open>instructor\<close>
  return the stored records that satisfy every supplied predicate, in store order, and
  so does every reordering of their steps.
\<close>

theorem pure_filters_compose:
  "(mset steps = mset (course_filters q1 None q3 q4 q5 q6 q7) \<longrightarrow>
      run_filters steps results = Inr (filter (course_matches q1 q3 q4 q5 q6 q7) results)) \<and>
   list_courses q1 None q3 q4 q5 q6 q7 st
     = Inr (filter (course_matches q1 q3 q4 q5 q6 q7) (dict_values (store.courses st))) \<and>
   (mset s_steps = mset (student_filters p1 p2 p3 p4 p5 p6 p7 p8 p9 None) \<longrightarrow>
      run_filters s_steps s_results
        = Inr (filter (student_matches p1 p2 p3 p4 p5 p6 p7 p8 p9) s_results)) \<and>
   list_students p1 p2 p3 p4 p5 p6 p7 p8 p9 None st
     = Inr (filter (student_matches p1 p2 p3 p4 p5 p6 p7 p8 p9)
              (dict_values (store.students st)))"
proof (intro conjI impI)
  assume "mset steps = mset (course_filters q1 None q3 q4 q5 q6 q7)"
  then have "set steps = set (course_filters q1 None q3 q4 q5 q6 q7)"
    by (rule mset_eq_setD)
  then show "run_filters steps results = Inr (filter (course_matches q1 q3 q4 q5 q6 q7) results)"
    by (rule course_filters_pure)
next
  show "list_courses q1 None q3 q4 q5 q6 q7 st
     = Inr (filter (course_matches q1 q3 q4 q5 q6 q7) (dict_values (store.courses st)))"
    by (simp only: list_courses_run_filters course_filters_pure [OF refl])
next
  assume "mset s_steps = mset (student_filters p1 p2 p3 p4 p5 p6 p7 p8 p9 None)"
  then have "set s_steps = set (student_filters p1 p2 p3 p4 p5 p6 p7 p8 p9 None)"
    by (rule mset_eq_setD)
  then show "run_filters s_steps s_results
        = Inr (filter (student_matches p1 p2 p3 p4 p5 p6 p7 p8 p9) s_results)"
    by (rule student_filters_pure)
next
  show "list_students p1 p2 p3 p4 p5 p6 p7 p8 p9 None st
     = Inr (filter (student_matches p1 p2 p3 p4 p5 p6 p7 p8 p9)
              (dict_values (store.students st)))"
    by (simp only: list_students_run_filters student_filters_pure [OF refl])
qed

theorem pure_filters_compose_witness:
  "mset (rev (course_filters (Some ''coms'') None None (Some ''ferguson'') None None None))
     = mset (course_filters (Some ''coms'') None None (Some ''ferguson'') None None None) \<and>
   run_filters (rev (course_filters (Some ''coms'') None None (Some ''ferguson'') None None None))
       (dict_values (store.courses stored_store))
     = Inr [course_read cloud_computing 7 5] \<and>
   mset (rev (student_filters None (Some ''ADA'') None None None None None
                (Some ''1815-12-10'') (Some ''Coms'') None))
     = mset (student_filters None (Some ''ADA'') None None None None None
               (Some ''1815-12-10'') (Some ''Coms'') None) \<and>
   run_filters (rev (student_filters None (Some ''ADA'') None None None None None
                       (Some ''1815-12-10'') (Some ''Coms'') None))
       (dict_values (store.students stored_store))
     = Inr [student_read ada 9 5]"
proof -
  have c: "filter (course_matches (Some ''coms'') None (Some ''ferguson'') None None None)
       (dict_values (store.courses stored_store)) = [course_read cloud_computing 7 5]"
    by code_simp
  have s: "filter (student_matches None (Some ''ADA'') None None None None None
                 (Some ''1815-12-10'') (Some ''Coms''))
       (dict_values (store.students stored_store)) = [student_read ada 9 5]"
    by code_simp
  let ?F = "course_filters (Some ''coms'') None None (Some ''ferguson'') None None None"
  let ?G = "student_filters None (Some ''ADA'') None None None None None
              (Some ''1815-12-10'') (Some ''Coms'') None"
  have m: "mset (rev ?F) = mset ?F" "mset (rev ?G) = mset ?G"
    by simp_all
  note T = pure_filters_compose [where steps = "rev ?F"
      and ?q1.0 = "Some ''coms''" and ?q3.0 = None and ?q4.0 = "Some ''ferguson''"
      and ?q5.0 = None and ?q6.0 = None and ?q7.0 = None
      and results = "dict_values (store.courses stored_store)"
      and s_steps = "rev ?G"
      and ?p1.0 = None and ?p2.0 = "Some ''ADA''" and ?p3.0 = None and ?p4.0 = None
      and ?p5.0 = None and ?p6.0 = None and ?p7.0 = None and ?p8.0 = "Some ''1815-12-10''"
      and ?p9.0 = "Some ''Coms''"
      and s_results = "dict_values (store.students stored_store)"]
  from T m have "run_filters (rev ?F) (dict_values (store.courses stored_store))
      = Inr (filter (course_matches (Some ''coms'') None (Some ''ferguson'') None None None)
              (dict_values (store.courses stored_store)))"
    by blast
  moreover from T m have "run_filters (rev ?G) (dict_values (store.students stored_store))
      = Inr (filter (student_matches None (Some ''ADA'') None None None None None
                 (Some ''1815-12-10'') (Some ''Coms''))
              (dict_values (store.students stored_store)))"
    by blast
  ultimately show ?thesis
    using m by (simp only: c s simp_thms)
qed

text \<open>A listing without parameters returns every stored record, in store order.\<close>

theorem list_without_parameters:
  "list_courses None None None None None None None st = Inr (dict_values (store.courses st)) \<and>
   list_students None None None None None None None None None None st
     = Inr (dict_values (store.students st))"
  by (simp add: list_courses_def list_students_def)

text \<open>
  The strings the UNI pattern matches: two or three characters from \<^verbatim>\<open>a\<close> to \<^verbatim>\<open>z\<close>,
  followed by one to four characters from \<^verbatim>\<open>0\<close> to \<^verbatim>\<open>9\<close>, and nothing else.
\<close>

theorem UNIType_shape:
  "UNIType s =
     (\<exists>k j. 2 \<le> k \<and> k \<le> 3 \<and> 1 \<le> j \<and> j \<le> 4 \<and> length s = k + j \<and>
        list_all (in_range CHR ''a'' CHR ''z'') (take k s) \<and>
        list_all (in_range CHR ''0'' CHR ''9'') (drop k s))"
  (is "_ = ?shape")
proof -
  let ?L = "Repeat (CharRange CHR ''a'' CHR ''z'') 2 3"
  let ?D = "Repeat (CharRange CHR ''0'' CHR ''9'') 1 4"
  have U: "UNIType s \<longleftrightarrow> (\<exists>t \<in> set (rmatch ?L s). [] \<in> set (rmatch ?D t))"
    by (simp add: UNIType_def anchored_match_def UNI_pattern_def del: rmatch.simps(3))
  show ?thesis
  proof
    assume "UNIType s"
    with U obtain t where t: "t \<in> set (rmatch ?L s)" and e: "[] \<in> set (rmatch ?D t)"
      by blast
    from t obtain k where k: "2 \<le> k" "k \<le> 3" "k \<le> length s"
      "list_all (in_range CHR ''a'' CHR ''z'') (take k s)" "t = drop k s"
      unfolding rmatch_repeat_range by blast
    from e obtain j where j: "1 \<le> j" "j \<le> 4" "j \<le> length t"
      "list_all (in_range CHR ''0'' CHR ''9'') (take j t)" "[] = drop j t"
      unfolding rmatch_repeat_range by blast
    from j have "length t = j" "take j t = t" by simp_all
    with k j have "length s = k + j" "list_all (in_range CHR ''0'' CHR ''9'') (drop k s)"
      by auto
    with k j show ?shape by blast
  next
    assume ?shape
    then obtain k j where kj: "2 \<le> k" "k \<le> 3" "1 \<le> j" "j \<le> 4" "length s = k + j"
      "list_all (in_range CHR ''a'' CHR ''z'') (take k s)"
      "list_all (in_range CHR ''0'' CHR ''9'') (drop k s)"
      by blast
    then have "drop k s \<in> set (rmatch ?L s)"
      unfolding rmatch_repeat_range by auto
    moreover from kj have "[] \<in> set (rmatch ?D (drop k s))"
      unfolding rmatch_repeat_range by (intro exI [of _ j]) simp
    ultimately show "UNIType s"
      using U by blast
  qed
qed

end
